theory Spec2Isabelle
  imports Complex_Main "HOL-Library.Sublist"
begin

section \<open>Conventions of the embedding\<close>

text \<open>
  The repository is TypeScript. A JavaScript \<open>number\<close> is modelled as a \<^typ>\<open>real\<close>
  (finite, exact: rounding is not modelled); where the source can produce a value that is
  not finite the type is widened with the non-finite values (\<open>jsnum\<close> below), since HOL's
  \<open>x / 0 = 0\<close> is not what JavaScript computes, and a value that may be \<open>undefined\<close> is an
  \<open>option\<close> with \<open>None\<close> for \<open>undefined\<close>. Timestamps and durations are milliseconds,
  and \<open>Date.now()\<close> is the argument \<open>now\<close>: one instant for the whole of an operation.
  A table is the list of its rows and a statement is a function on the table, with the
  meaning of its SQL text. Log lines are not part of the state.

  The statement objects come from \<open>DatabaseManager.prepare\<close>, whose \<open>run\<close>, \<open>get\<close> and
  \<open>all\<close> are \<open>async\<close>: a call hands the statement to the driver and returns a \<open>Promise\<close>.
  The call sites use the returned value at once, without \<open>await\<close>, and the model follows
  them as they are written: the value of \<open>stmt.get(..)\<close> or \<open>stmt.all(..)\<close> at the call
  site is the \<open>Promise\<close> object, not a row or an array of rows, and a \<open>stmt.run(..)\<close> is
  carried out by the driver in the order of the calls while the caller goes on.
\<close>

section \<open>Sleep cycle manager\<close>

text \<open>\<open>SleepCycleManager.determineSleepType\<close>: the duration is in milliseconds.\<close>

definition determineSleepType :: "real \<Rightarrow> string" where
  "determineSleepType sleepDuration =
     (let hours = sleepDuration / (1000 * 60 * 60) in
      if hours < 2 then ''light_processing''
      else if hours < 6 then ''deep_consolidation''
      else if hours < 12 then ''rem_integration''
      else ''extended_reorganization'')"

text \<open>The position of a sleep type in the order of the brackets (4 for any other string).\<close>

definition sleepTypeRank :: "string \<Rightarrow> nat" where
  "sleepTypeRank t =
     (if t = ''light_processing'' then 0
      else if t = ''deep_consolidation'' then 1
      else if t = ''rem_integration'' then 2
      else if t = ''extended_reorganization'' then 3
      else 4)"

section \<open>Errors and generic helpers\<close>

text \<open>
  \<open>Error msg\<close> is a JavaScript \<open>Error\<close> thrown by the code itself; \<open>SqliteError msg\<close>
  is a statement rejected by the store (a \<open>CHECK\<close>, \<open>UNIQUE\<close> or \<open>PRIMARY KEY\<close>
  constraint of the schema in \<open>schemas.ts\<close>); \<open>TypeError msg\<close> and \<open>RangeError msg\<close>
  are thrown by the JavaScript runtime.
\<close>

datatype error = Error string | SqliteError string | TypeError string | RangeError string

text \<open>\<open>Math.max(0, Math.min(1, v))\<close>, written out at each place the source writes it.\<close>

definition clamp01 :: "real \<Rightarrow> real" where
  "clamp01 v = max 0 (min 1 v)"

text \<open>
  \<open>ORDER BY\<close>: a stable insertion sort; \<open>le a b\<close> says that \<open>a\<close> may stand before \<open>b\<close>.
  (SQL leaves the order of ties open; the model keeps the table order among ties.)
\<close>

fun insort_by :: "('a \<Rightarrow> 'a \<Rightarrow> bool) \<Rightarrow> 'a \<Rightarrow> 'a list \<Rightarrow> 'a list" where
  "insort_by le x [] = [x]"
| "insort_by le x (y # ys) = (if le x y then x # y # ys else y # insort_by le x ys)"

definition order_by :: "('a \<Rightarrow> 'a \<Rightarrow> bool) \<Rightarrow> 'a list \<Rightarrow> 'a list" where
  "order_by le xs = foldr (insort_by le) xs []"

text \<open>\<open>LIMIT n\<close>: SQLite treats a negative limit as no limit.\<close>

definition sql_limit :: "int \<Rightarrow> 'a list \<Rightarrow> 'a list" where
  "sql_limit n xs = (if n < 0 then xs else take (nat n) xs)"

text \<open>
  \<open>String.prototype.includes\<close>. \<open>String.prototype.toLowerCase\<close> is a function of the
  runtime over all of Unicode: the functions that call it take it as their first argument
  \<open>lower\<close>.
\<close>

definition str_includes :: "string \<Rightarrow> string \<Rightarrow> bool" where
  "str_includes s t = sublist t s"

text \<open>Insertion-ordered set of strings (\<open>new Set([...])\<close>, \<open>Array.from\<close>).\<close>

definition set_add :: "'a list \<Rightarrow> 'a \<Rightarrow> 'a list" where
  "set_add acc x = (if x \<in> set acc then acc else acc @ [x])"

definition new_Set :: "'a list \<Rightarrow> 'a list" where
  "new_Set xs = foldl set_add [] xs"

text \<open>
  What a call site holds after an un-awaited \<open>stmt.get(..)\<close>, \<open>stmt.all(..)\<close> or
  \<open>stmt.run(..)\<close>: a \<open>Promise\<close> object. \<open>Promise v\<close> is the promise that the driver will
  settle with \<open>v\<close>. Only \<open>await\<close> gives \<open>v\<close>; as an object the promise is truthy, has
  none of the properties of \<open>v\<close> (reading one gives \<open>undefined\<close>) and none of the methods
  of an array (calling one throws a \<open>TypeError\<close>, whose message names the callee). The
  last argument of \<open>promise_method\<close> is what the method would have computed on \<open>v\<close>.
\<close>

datatype 'a promise = Promise 'a

definition stmt_get :: "'a option \<Rightarrow> 'a option promise" where
  "stmt_get row = Promise row"

definition stmt_all :: "'a list \<Rightarrow> 'a list promise" where
  "stmt_all rows = Promise rows"


definition await :: "'a promise \<Rightarrow> 'a" where
  "await p = (case p of Promise v \<Rightarrow> v)"

definition promise_truthy :: "'a promise \<Rightarrow> bool" where
  "promise_truthy p = True"

definition promise_field :: "'a promise \<Rightarrow> string \<Rightarrow> 'b option" where
  "promise_field p name = None"

definition promise_method :: "'a promise \<Rightarrow> string \<Rightarrow> ('a \<Rightarrow> 'b) \<Rightarrow> error + 'b" where
  "promise_method p callee f = Inl (TypeError (callee @ '' is not a function''))"

text \<open>
  The effect of an un-awaited \<open>stmt.run(..)\<close> on a table: the statement takes effect when
  the store accepts it; when the store refuses it the table is unchanged and the error
  rejects a promise that the caller does not hold, so the caller goes on without it.
  (What the runtime does about a rejection that nobody handles is outside the model.)
\<close>

definition run_detached :: "'t \<Rightarrow> error + 't \<Rightarrow> 't" where
  "run_detached tbl outcome = (case outcome of Inl e \<Rightarrow> tbl | Inr tbl' \<Rightarrow> tbl')"

section \<open>Embedding generator\<close>

text \<open>
  The value of a JavaScript division: finite, an infinity, or \<open>NaN\<close>. \<open>js_div\<close> is \<open>/\<close> on
  finite operands with a non-negative divisor (the divisor below is a product of square
  roots); \<open>Math.min\<close> and \<open>Math.max\<close> return \<open>NaN\<close> when an argument is \<open>NaN\<close>.
\<close>

datatype jsnum = Num real | PosInf | NegInf | NaN

definition js_div :: "real \<Rightarrow> real \<Rightarrow> jsnum" where
  "js_div x y = (if y \<noteq> 0 then Num (x / y) else if x = 0 then NaN else if 0 < x then PosInf else NegInf)"

fun Math_min :: "real \<Rightarrow> jsnum \<Rightarrow> jsnum" where
  "Math_min a (Num x) = Num (min a x)"
| "Math_min a PosInf = Num a"
| "Math_min a NegInf = NegInf"
| "Math_min a NaN = NaN"

fun Math_max :: "real \<Rightarrow> jsnum \<Rightarrow> jsnum" where
  "Math_max a (Num x) = Num (max a x)"
| "Math_max a PosInf = PosInf"
| "Math_max a NegInf = Num a"
| "Math_max a NaN = NaN"

text \<open>
  \<open>EmbeddingGenerator.calculateSimilarity\<close>. The \<open>for\<close> loop runs over the indices of two
  arrays of equal length: a fold over the zipped lists, carrying
  \<open>(dotProduct, norm1, norm2)\<close>.
\<close>

definition similarity_step :: "real \<times> real \<times> real \<Rightarrow> real \<times> real \<Rightarrow> real \<times> real \<times> real" where
  "similarity_step acc p =
     (case acc of (dotProduct, norm1, norm2) \<Rightarrow>
        (dotProduct + fst p * snd p, norm1 + fst p * fst p, norm2 + snd p * snd p))"

definition calculateSimilarity :: "real list \<Rightarrow> real list \<Rightarrow> error + jsnum" where
  "calculateSimilarity embedding1 embedding2 =
     (if length embedding1 \<noteq> length embedding2
      then Inl (Error ''Embeddings must have the same dimension'')
      else
        (case foldl similarity_step (0, 0, 0) (zip embedding1 embedding2) of
           (dotProduct, norm1, norm2) \<Rightarrow>
             let similarity = js_div dotProduct (sqrt norm1 * sqrt norm2)
             in Inr (Math_max (- 1) (Math_min 1 similarity))))"

section \<open>Numbers that may be undefined or not finite\<close>

text \<open>
  \<open>ToNumber\<close> of a value that may be \<open>undefined\<close> (\<open>undefined\<close> becomes \<open>NaN\<close>), and the
  operators \<open>+\<close>, unary and binary \<open>-\<close>, \<open>*\<close>, \<open>Math.abs\<close>, \<open><\<close>, \<open>>\<close> and \<open>>=\<close> on
  numbers: \<open>NaN\<close> is contagious in the arithmetic and makes every comparison false.
\<close>

definition ToNumber :: "jsnum option \<Rightarrow> jsnum" where
  "ToNumber v = (case v of None \<Rightarrow> NaN | Some x \<Rightarrow> x)"

fun js_add :: "jsnum \<Rightarrow> jsnum \<Rightarrow> jsnum" where
  "js_add NaN b = NaN"
| "js_add a NaN = NaN"
| "js_add (Num x) (Num y) = Num (x + y)"
| "js_add PosInf NegInf = NaN"
| "js_add NegInf PosInf = NaN"
| "js_add PosInf b = PosInf"
| "js_add NegInf b = NegInf"
| "js_add a PosInf = PosInf"
| "js_add a NegInf = NegInf"

fun js_neg :: "jsnum \<Rightarrow> jsnum" where
  "js_neg (Num x) = Num (- x)"
| "js_neg PosInf = NegInf"
| "js_neg NegInf = PosInf"
| "js_neg NaN = NaN"

definition js_sub :: "jsnum \<Rightarrow> jsnum \<Rightarrow> jsnum" where
  "js_sub a b = js_add a (js_neg b)"

fun js_sign :: "jsnum \<Rightarrow> int" where
  "js_sign (Num x) = (if x < 0 then - 1 else if x = 0 then 0 else 1)"
| "js_sign PosInf = 1"
| "js_sign NegInf = - 1"
| "js_sign NaN = 0"

fun js_mul :: "jsnum \<Rightarrow> jsnum \<Rightarrow> jsnum" where
  "js_mul NaN b = NaN"
| "js_mul a NaN = NaN"
| "js_mul (Num x) (Num y) = Num (x * y)"
| "js_mul a b =
     (if js_sign a * js_sign b = 0 then NaN
      else if js_sign a * js_sign b > 0 then PosInf else NegInf)"


fun js_lt :: "jsnum \<Rightarrow> jsnum \<Rightarrow> bool" where
  "js_lt NaN b = False"
| "js_lt a NaN = False"
| "js_lt (Num x) (Num y) = (x < y)"
| "js_lt PosInf b = False"
| "js_lt a PosInf = True"
| "js_lt a NegInf = False"
| "js_lt NegInf b = True"



text \<open>
  A number bound to a \<open>?\<close> placeholder of a \<open>REAL\<close> or \<open>INTEGER\<close> column: \<open>undefined\<close>
  and \<open>NaN\<close> are stored as \<open>NULL\<close> (\<open>None\<close>), every other number as itself. \<open>sql_le\<close>
  is the order of stored numbers, \<open>NULL\<close> first.
\<close>

definition sql_bind :: "jsnum option \<Rightarrow> jsnum option" where
  "sql_bind v = (case v of None \<Rightarrow> None | Some NaN \<Rightarrow> None | Some x \<Rightarrow> Some x)"

fun sql_le :: "jsnum option \<Rightarrow> jsnum option \<Rightarrow> bool" where
  "sql_le None b = True"
| "sql_le (Some a) None = False"
| "sql_le (Some a) (Some b) = (\<not> js_lt b a)"

text \<open>
  A time value (\<open>Date.prototype.getTime\<close>, and a difference of two of them) is a whole
  number of milliseconds, or \<open>NaN\<close> for an \<open>Invalid Date\<close>: an \<^typ>\<open>int option\<close> with
  \<open>None\<close> for \<open>NaN\<close>. A \<open>Date\<close> object is modelled by its time value, and a stored
  ISO-8601 text by the instant it denotes. \<open>new Date(undefined)\<close> is an \<open>Invalid Date\<close>,
  on which \<open>toISOString\<close> throws.
\<close>

definition new_Date :: "int option \<Rightarrow> int option" where
  "new_Date stamp = (case stamp of None \<Rightarrow> None | Some t \<Rightarrow> Some t)"

definition toISOString :: "int option \<Rightarrow> error + int" where
  "toISOString d = (case d of None \<Rightarrow> Inl (RangeError ''Invalid time value'') | Some t \<Rightarrow> Inr t)"

text \<open>\<open>Date.now() - d.getTime()\<close>, and \<open>duration > bound\<close> on such a difference.\<close>

definition time_since :: "int \<Rightarrow> int option \<Rightarrow> int option" where
  "time_since now d = (case d of None \<Rightarrow> None | Some t \<Rightarrow> Some (now - t))"

definition duration_gt :: "int option \<Rightarrow> int \<Rightarrow> bool" where
  "duration_gt d bound = (case d of None \<Rightarrow> False | Some x \<Rightarrow> x > bound)"

section \<open>Procedural memory\<close>

text \<open>
  A row of \<open>procedural_skills\<close>. \<open>context_conditions\<close> is stored as
  \<open>JSON.stringify\<close> of a string array and read back with \<open>JSON.parse\<close>: the model keeps
  the array. \<open>pattern\<close> is the serialised JSON text. \<open>success_rate\<close> is
  \<open>REAL NOT NULL\<close> under a \<open>CHECK\<close>; \<open>usage_count\<close> may hold \<open>NULL\<close>.
\<close>

record skill_row =
  sk_id :: string
  sk_persona_id :: string
  sk_skill_name :: string
  sk_domain :: string
  sk_pattern :: string
  sk_success_rate :: real
  sk_context_conditions :: "string list"
  sk_usage_count :: "jsnum option"
  sk_last_used :: int
  sk_created_at :: int

record ProceduralSkill =
  skillId :: string
  skillName :: string
  skillDomain :: string
  skillPattern :: string
  successRate :: real
  contextConditions :: "string list"
  usageCount :: "jsnum option"
  lastUsed :: int

definition mapRowToSkill :: "skill_row \<Rightarrow> ProceduralSkill" where
  "mapRowToSkill row =
     \<lparr> skillId = sk_id row, skillName = sk_skill_name row, skillDomain = sk_domain row,
       skillPattern = sk_pattern row, successRate = sk_success_rate row,
       contextConditions = sk_context_conditions row, usageCount = sk_usage_count row,
       lastUsed = sk_last_used row \<rparr>"

text \<open>\<open>ProceduralMemory.contextMatches\<close>.\<close>

definition contextMatches :: "(string \<Rightarrow> string) \<Rightarrow> string list \<Rightarrow> string list \<Rightarrow> bool" where
  "contextMatches lower currentContext requiredConditions =
     (if length requiredConditions = 0 then True
      else list_ex (\<lambda>condition.
             list_ex (\<lambda>ctx.
               let ctxLower = lower ctx; condLower = lower condition
               in str_includes ctxLower condLower \<or> str_includes condLower ctxLower) currentContext)
           requiredConditions)"

text \<open>\<open>ORDER BY success_rate DESC, usage_count DESC\<close>.\<close>

definition skill_order :: "skill_row \<Rightarrow> skill_row \<Rightarrow> bool" where
  "skill_order a b =
     (sk_success_rate b < sk_success_rate a \<or>
      (sk_success_rate a = sk_success_rate b \<and> sql_le (sk_usage_count b) (sk_usage_count a)))"

text \<open>
  \<open>ProceduralMemory.getApplicableSkills\<close>. The optional \<open>domain\<close> is \<open>None\<close> when
  omitted; \<open>if (domain)\<close> is also false for the empty string. \<open>skills\<close> is the value of
  the un-awaited \<open>stmt.all(...params)\<close>, and the next statement calls \<open>skills.filter\<close>;
  the \<open>catch\<close> block logs the error and throws it again.
\<close>

definition getApplicableSkills ::
  "(string \<Rightarrow> string) \<Rightarrow> skill_row list \<Rightarrow> string \<Rightarrow> string list \<Rightarrow> string option
     \<Rightarrow> error + ProceduralSkill list" where
  "getApplicableSkills lower db personaId context domain =
     (let selected =
            (case domain of
               None \<Rightarrow> filter (\<lambda>r. sk_persona_id r = personaId) db
             | Some d \<Rightarrow>
                 if d \<noteq> [] then filter (\<lambda>r. sk_persona_id r = personaId \<and> sk_domain r = d) db
                 else filter (\<lambda>r. sk_persona_id r = personaId) db);
          skills = stmt_all (order_by skill_order selected)
      in promise_method skills ''skills.filter''
           (\<lambda>rows. map mapRowToSkill
              (filter (\<lambda>skill. contextMatches lower context (sk_context_conditions skill)) rows)))"

text \<open>
  \<open>UPDATE procedural_skills SET success_rate = ?, usage_count = ?, last_used = ? WHERE id = ?\<close>
  with the two numbers bound as the caller computed them. The column \<open>success_rate\<close> is
  \<open>NOT NULL\<close> with \<open>CHECK(success_rate >= 0 AND success_rate <= 1)\<close>: the statement
  fails, changing nothing, when it matches a row and the rate is \<open>NaN\<close> (bound as
  \<open>NULL\<close>) or lies outside the interval.
\<close>

definition rate_accepted :: "jsnum \<Rightarrow> bool" where
  "rate_accepted rate = (case rate of Num x \<Rightarrow> 0 \<le> x \<and> x \<le> 1 | PosInf \<Rightarrow> False
                         | NegInf \<Rightarrow> False | NaN \<Rightarrow> False)"

definition rate_stored :: "jsnum \<Rightarrow> real \<Rightarrow> real" where
  "rate_stored rate old = (case rate of Num x \<Rightarrow> x | PosInf \<Rightarrow> old | NegInf \<Rightarrow> old | NaN \<Rightarrow> old)"

definition update_skill_stmt ::
  "skill_row list \<Rightarrow> jsnum \<Rightarrow> jsnum \<Rightarrow> int \<Rightarrow> string \<Rightarrow> error + skill_row list" where
  "update_skill_stmt db rate cnt used k =
     (if (\<exists>r \<in> set db. sk_id r = k) \<and> \<not> rate_accepted rate
      then Inl (SqliteError (if rate = NaN
                              then ''NOT NULL constraint failed: procedural_skills.success_rate''
                              else ''CHECK constraint failed: procedural_skills''))
      else Inr (map (\<lambda>r. if sk_id r = k
                            then r\<lparr>sk_success_rate := rate_stored rate (sk_success_rate r),
                                   sk_usage_count := sql_bind (Some cnt), sk_last_used := used\<rparr>
                            else r) db))"

text \<open>
  \<open>ProceduralMemory.updateSkillPerformance\<close> at clock \<open>now\<close>. \<open>skill\<close> is the value of
  the un-awaited \<open>stmt.get(skillId)\<close>: the guard \<open>if (!skill)\<close> tests that object, and
  \<open>skill.usage_count\<close> and \<open>skill.success_rate\<close> read its properties. The
  \<open>updateStmt.run(..)\<close> is not awaited either. Nothing in the \<open>try\<close> block throws, so
  the method always returns normally (\<open>Inr\<close>). The \<open>context\<close> argument is not used by
  the body.
\<close>

definition updateSkillPerformance ::
  "skill_row list \<Rightarrow> int \<Rightarrow> string \<Rightarrow> bool \<Rightarrow> string list \<Rightarrow> error + skill_row list" where
  "updateSkillPerformance db now k wasSuccessful context =
     (let skill = stmt_get (find (\<lambda>r. sk_id r = k) db)
      in if \<not> promise_truthy skill then Inr db
         else
           let totalAttempts = js_add (ToNumber (promise_field skill ''usage_count'')) (Num 1);
               alpha = Num 0.1;
               currentSuccessRate = ToNumber (promise_field skill ''success_rate'');
               newSuccessRate =
                 (if wasSuccessful
                  then js_add currentSuccessRate (js_mul alpha (js_sub (Num 1) currentSuccessRate))
                  else js_add currentSuccessRate (js_mul alpha (js_sub (Num 0) currentSuccessRate)))
           in Inr (run_detached db
                     (update_skill_stmt db (Math_max 0 (Math_min 1 newSuccessRate))
                        totalAttempts now k)))"

section \<open>Semantic memory\<close>

text \<open>
  A row of \<open>semantic_knowledge\<close>. \<open>content\<close> is the JSON text that \<open>JSON.stringify\<close>
  stored (\<open>mapRowToKnowledge\<close> parses it and the similarity and merge code serialise it
  again, which gives the same text back); \<open>relationships\<close> is the parsed string array.
  \<open>mapRowToKnowledge\<close> only renames the columns, so the code's \<open>SemanticKnowledge\<close>
  objects are the rows themselves.
\<close>

record knowledge_row =
  kn_id :: string
  kn_persona_id :: string
  kn_domain :: string
  kn_concept :: string
  kn_content :: string
  kn_confidence_level :: real
  kn_source :: string
  kn_relationships :: "string list"
  kn_created_at :: int
  kn_updated_at :: int

text \<open>A row of \<open>vector_embeddings\<close>; it shares its id with the record it indexes.\<close>

record vector_row =
  vec_id :: string
  vec_embedding :: "real list"
  vec_metadata :: string
  vec_dimension :: nat

text \<open>\<open>text.split(/\W+/)\<close> and \<open>text.split(' ')\<close>, with the empty strings JavaScript produces.\<close>

definition is_word_char :: "char \<Rightarrow> bool" where
  "is_word_char c =
     (let n = (of_char c :: nat)
      in (48 \<le> n \<and> n \<le> 57) \<or> (65 \<le> n \<and> n \<le> 90) \<or> n = 95 \<or> (97 \<le> n \<and> n \<le> 122))"

fun split_nonword :: "bool \<Rightarrow> string \<Rightarrow> string \<Rightarrow> string list" where
  "split_nonword insep cur [] = [cur]"
| "split_nonword insep cur (c # cs) =
     (if is_word_char c then split_nonword False (cur @ [c]) cs
      else if insep then split_nonword True cur cs
      else cur # split_nonword True [] cs)"

fun split_char :: "char \<Rightarrow> string \<Rightarrow> string \<Rightarrow> string list" where
  "split_char d cur [] = [cur]"
| "split_char d cur (c # cs) =
     (if c = d then cur # split_char d [] cs else split_char d (cur @ [c]) cs)"

definition findCommonWords :: "string \<Rightarrow> string \<Rightarrow> string list" where
  "findCommonWords text1 text2 =
     (let words1 = new_Set (filter (\<lambda>w. length w > 3) (split_nonword False [] text1));
          words2 = new_Set (filter (\<lambda>w. length w > 3) (split_nonword False [] text2))
      in filter (\<lambda>word. word \<in> set words2) words1)"


text \<open>
  \<open>SemanticMemory.calculateConceptSimilarity\<close>; \<open>contentSimilarity\<close> is its local of
  that name. Both \<open>split(' ')\<close> lengths are at least 1, so the division is defined.
\<close>

definition contentSimilarity :: "(string \<Rightarrow> string) \<Rightarrow> knowledge_row \<Rightarrow> knowledge_row \<Rightarrow> real" where
  "contentSimilarity lower k1 k2 =
     (let content1 = lower (kn_content k1);
          content2 = lower (kn_content k2);
          commonWords = findCommonWords content1 content2
      in real (length commonWords) /
           real (max (length (split_char (CHR '' '') [] content1))
                     (length (split_char (CHR '' '') [] content2))))"

definition calculateConceptSimilarity ::
  "(string \<Rightarrow> string) \<Rightarrow> knowledge_row \<Rightarrow> knowledge_row \<Rightarrow> real" where
  "calculateConceptSimilarity lower k1 k2 =
     (let conceptSimilarity =
            (if lower (kn_concept k1) = lower (kn_concept k2) then 1 else 0)
      in (conceptSimilarity * 0.7) + (contentSimilarity lower k1 k2 * 0.3))"

text \<open>
  \<open>SemanticMemory.findConsolidationCandidates\<close>: the inner loop over all entries for one
  \<open>item\<close>, then the outer loop; \<open>processed\<close> is the set of ids already grouped.
\<close>

definition candidates_inner ::
  "(string \<Rightarrow> string) \<Rightarrow> knowledge_row \<Rightarrow> knowledge_row list \<times> string list \<Rightarrow> knowledge_row
     \<Rightarrow> knowledge_row list \<times> string list" where
  "candidates_inner lower item st other =
     (case st of (similar, processed) \<Rightarrow>
        if kn_id other \<in> set processed \<or> kn_domain other \<noteq> kn_domain item then (similar, processed)
        else if calculateConceptSimilarity lower item other > 0.8
             then (similar @ [other], processed @ [kn_id other])
             else (similar, processed))"

fun candidates_outer ::
  "(string \<Rightarrow> string) \<Rightarrow> knowledge_row list \<Rightarrow> knowledge_row list \<Rightarrow> knowledge_row list list
     \<Rightarrow> string list \<Rightarrow> knowledge_row list list" where
  "candidates_outer lower knowledge [] candidates processed = candidates"
| "candidates_outer lower knowledge (item # rest) candidates processed =
     (if kn_id item \<in> set processed then candidates_outer lower knowledge rest candidates processed
      else
        (case foldl (candidates_inner lower item) ([item], processed @ [kn_id item]) knowledge of
           (similar, processed') \<Rightarrow>
             candidates_outer lower knowledge rest
               (if length similar > 1 then candidates @ [similar] else candidates) processed'))"

definition findConsolidationCandidates ::
  "(string \<Rightarrow> string) \<Rightarrow> knowledge_row list \<Rightarrow> knowledge_row list list" where
  "findConsolidationCandidates lower knowledge = candidates_outer lower knowledge knowledge [] []"

text \<open>
  The statements of \<open>mergeKnowledgeEntries\<close>. The \<open>UPDATE\<close> runs under
  \<open>CHECK(confidence_level >= 0 AND confidence_level <= 1)\<close>.
\<close>

definition update_knowledge_stmt ::
  "knowledge_row list \<Rightarrow> string \<Rightarrow> string list \<Rightarrow> real \<Rightarrow> int \<Rightarrow> string
     \<Rightarrow> error + knowledge_row list" where
  "update_knowledge_stmt db content rels conf now k =
     (if (\<exists>r \<in> set db. kn_id r = k) \<and> \<not> (0 \<le> conf \<and> conf \<le> 1)
      then Inl (SqliteError ''CHECK constraint failed: semantic_knowledge'')
      else Inr (map (\<lambda>r. if kn_id r = k
                            then r\<lparr>kn_content := content, kn_relationships := rels,
                                   kn_confidence_level := conf, kn_updated_at := now\<rparr>
                            else r) db))"

definition delete_knowledge_stmt :: "knowledge_row list \<Rightarrow> string \<Rightarrow> knowledge_row list" where
  "delete_knowledge_stmt db k = filter (\<lambda>r. kn_id r \<noteq> k) db"

text \<open>\<open>VectorDatabase.delete\<close>: \<open>DELETE FROM vector_embeddings WHERE id = ?\<close>.\<close>

definition vector_delete :: "vector_row list \<Rightarrow> string \<Rightarrow> vector_row list" where
  "vector_delete vdb k = filter (\<lambda>v. vec_id v \<noteq> k) vdb"

text \<open>
  \<open>entries.reduce((prev, current) => current.confidenceLevel > prev.confidenceLevel ? current : prev)\<close>
  on a non-empty array, and the serialisation of \<open>{primary, additional}\<close>.
\<close>

definition primary_of :: "knowledge_row \<Rightarrow> knowledge_row list \<Rightarrow> knowledge_row" where
  "primary_of e es =
     foldl (\<lambda>prev current.
              if kn_confidence_level current > kn_confidence_level prev then current else prev) e es"

fun join_comma :: "string list \<Rightarrow> string" where
  "join_comma [] = []"
| "join_comma [x] = x"
| "join_comma (x # y # ys) = x @ '','' @ join_comma (y # ys)"

definition mergedContent_json :: "string \<Rightarrow> string list \<Rightarrow> string" where
  "mergedContent_json p others =
     ''{'' @ [CHR 0x22] @ ''primary'' @ [CHR 0x22] @ '':'' @ p @ '','' @
     [CHR 0x22] @ ''additional'' @ [CHR 0x22] @ '':['' @ join_comma others @ '']}''"

text \<open>
  \<open>SemanticMemory.mergeKnowledgeEntries\<close> on the pair of the relational table and the
  vector index, at clock \<open>now\<close>.
\<close>

definition mergeKnowledgeEntries ::
  "knowledge_row list \<times> vector_row list \<Rightarrow> int \<Rightarrow> knowledge_row list
     \<Rightarrow> error + (knowledge_row list \<times> vector_row list)" where
  "mergeKnowledgeEntries st now entries =
     (case entries of
        [] \<Rightarrow> Inr st
      | [e] \<Rightarrow> Inr st
      | e # e' # es \<Rightarrow>
          let primary = primary_of e (e' # es);
              others = filter (\<lambda>x. kn_id x \<noteq> kn_id primary) entries;
              mergedContent = mergedContent_json (kn_content primary) (map kn_content others);
              allRelationships =
                new_Set (kn_relationships primary @ concat (map kn_relationships others));
              newConfidence = min 1 (kn_confidence_level primary + (real (length others) * 0.05))
          in (case update_knowledge_stmt (fst st) mergedContent allRelationships newConfidence now
                     (kn_id primary) of
                Inl err \<Rightarrow> Inl err
              | Inr db1 \<Rightarrow>
                  Inr (foldl (\<lambda>s other. (delete_knowledge_stmt (fst s) (kn_id other),
                                           vector_delete (snd s) (kn_id other)))
                         (db1, snd st) others)))"


text \<open>
  \<open>SemanticMemory.getAllKnowledge\<close>: \<open>rows\<close> is the value of the un-awaited
  \<open>stmt.all(personaId)\<close>, and the method returns \<open>rows.map(this.mapRowToKnowledge)\<close>.
\<close>

definition getAllKnowledge :: "knowledge_row list \<Rightarrow> string \<Rightarrow> error + knowledge_row list" where
  "getAllKnowledge db personaId =
     (let rows = stmt_all (filter (\<lambda>r. kn_persona_id r = personaId) db)
      in promise_method rows ''rows.map'' (map (\<lambda>row. row)))"

text \<open>
  \<open>SemanticMemory.consolidateKnowledge\<close> on the pair of the relational table and the
  vector index: the state it leaves, and whether it returned or threw. An error of
  \<open>getAllKnowledge\<close> or of a merge leaves the \<open>try\<close> block; the \<open>catch\<close> block logs it
  and throws it again.
\<close>

fun merge_all ::
  "knowledge_row list \<times> vector_row list \<Rightarrow> int \<Rightarrow> knowledge_row list list
     \<Rightarrow> (knowledge_row list \<times> vector_row list) \<times> (error + unit)" where
  "merge_all st now [] = (st, Inr ())"
| "merge_all st now (candidates # rest) =
     (if length candidates > 1
      then (case mergeKnowledgeEntries st now candidates of
              Inl err \<Rightarrow> (st, Inl err)
            | Inr st' \<Rightarrow> merge_all st' now rest)
      else merge_all st now rest)"

definition consolidateKnowledge ::
  "(string \<Rightarrow> string) \<Rightarrow> knowledge_row list \<times> vector_row list \<Rightarrow> int \<Rightarrow> string
     \<Rightarrow> (knowledge_row list \<times> vector_row list) \<times> (error + unit)" where
  "consolidateKnowledge lower st now personaId =
     (case getAllKnowledge (fst st) personaId of
        Inl err \<Rightarrow> (st, Inl err)
      | Inr allKnowledge \<Rightarrow>
          let consolidationCandidates = findConsolidationCandidates lower allKnowledge
          in merge_all st now consolidationCandidates)"



section \<open>Episodic memory\<close>

text \<open>
  A row of \<open>episodic_memories\<close>. \<open>timestamp\<close> is stored as an ISO-8601 text in UTC, whose
  text order is the order of the instants: the model keeps the instant in milliseconds.
  \<open>mapRowToEpisode\<close> renames columns, so the code's episode objects are the rows.
\<close>

record episode_row =
  ep_id :: string
  ep_persona_id :: string
  ep_timestamp :: int
  ep_event_type :: string
  ep_content :: string
  ep_context :: string
  ep_emotional_valence :: real
  ep_importance_score :: real
  ep_participants :: "string list"
  ep_location :: "string option"
  ep_is_consolidated :: bool
  ep_created_at :: int

text \<open>
  \<open>Date.prototype.getHours\<close>: the hour of the day in local time, for a zone at the fixed
  offset \<open>tz\<close> milliseconds from UTC.
\<close>

definition getHours :: "int \<Rightarrow> int \<Rightarrow> int" where
  "getHours tz ts = ((ts + tz) div 3600000) mod 24"

text \<open>\<open>ORDER BY timestamp DESC\<close>.\<close>

definition newer_first :: "episode_row \<Rightarrow> episode_row \<Rightarrow> bool" where
  "newer_first a b = (ep_timestamp b \<le> ep_timestamp a)"


definition getUnconsolidatedEpisodes :: "episode_row list \<Rightarrow> string \<Rightarrow> error + episode_row list" where
  "getUnconsolidatedEpisodes db personaId =
     (let rows = stmt_all (sql_limit 50 (order_by newer_first
                   (filter (\<lambda>r. ep_persona_id r = personaId \<and> \<not> ep_is_consolidated r) db)))
      in promise_method rows ''rows.map'' (map (\<lambda>row. row)))"

text \<open>\<open>EpisodicMemory.identifyPatterns\<close> (its \<open>personaId\<close> argument is not used).\<close>

definition identifyPatterns :: "int \<Rightarrow> episode_row \<Rightarrow> string list" where
  "identifyPatterns tz episode =
     (let hour = getHours tz (ep_timestamp episode) in
      (if hour < 6 then [''late_night'']
       else if hour < 12 then [''morning'']
       else if hour < 18 then [''afternoon'']
       else [''evening'']) @
      (if ep_event_type episode = ''conversation''
       then (if length (ep_participants episode) > 2 then [''group_conversation'']
             else [''one_on_one_conversation''])
       else []) @
      (if ep_emotional_valence episode > 0.5 then [''positive_experience'']
       else if ep_emotional_valence episode < - 0.5 then [''negative_experience'']
       else []))"

text \<open>\<open>EpisodicMemory.recalculateImportance\<close> at clock \<open>now\<close>.\<close>

definition recalculateImportance :: "int \<Rightarrow> episode_row \<Rightarrow> string list \<Rightarrow> real" where
  "recalculateImportance now episode patterns =
     (let importance0 = ep_importance_score episode;
          importance1 = (if ''positive_experience'' \<in> set patterns then importance0 + 0.1 else importance0);
          importance2 = (if ''negative_experience'' \<in> set patterns then importance1 + 0.15 else importance1);
          importance3 = (if ''group_conversation'' \<in> set patterns then importance2 + 0.05 else importance2);
          ageInDays = real_of_int (now - ep_timestamp episode) / (1000 * 60 * 60 * 24);
          decay = exp (- ageInDays / 30)
      in max 0 (min 1 (importance3 * decay)))"

text \<open>\<open>UPDATE episodic_memories SET importance_score = ? WHERE id = ?\<close> and
  \<open>UPDATE episodic_memories SET is_consolidated = 1 WHERE id = ?\<close>. Neither column is
  under a constraint, so the un-awaited statements take effect.\<close>

definition updateEpisodeImportance :: "episode_row list \<Rightarrow> string \<Rightarrow> real \<Rightarrow> episode_row list" where
  "updateEpisodeImportance db episodeId newImportance =
     map (\<lambda>r. if ep_id r = episodeId then r\<lparr>ep_importance_score := newImportance\<rparr> else r) db"

definition markConsolidated :: "episode_row list \<Rightarrow> string \<Rightarrow> episode_row list" where
  "markConsolidated db episodeId =
     map (\<lambda>r. if ep_id r = episodeId then r\<lparr>ep_is_consolidated := True\<rparr> else r) db"

text \<open>
  \<open>EpisodicMemory.consolidateMemories\<close>: the body of the loop for one episode, then the
  method: the table it leaves, and whether it returned or threw. An error of
  \<open>getUnconsolidatedEpisodes\<close> leaves the \<open>try\<close> block; the \<open>catch\<close> block logs it and
  throws it again.
\<close>

definition consolidate_step :: "int \<Rightarrow> int \<Rightarrow> episode_row list \<Rightarrow> episode_row \<Rightarrow> episode_row list" where
  "consolidate_step now tz db episode =
     (let patterns = identifyPatterns tz episode;
          updatedImportance = recalculateImportance now episode patterns
      in markConsolidated (updateEpisodeImportance db (ep_id episode) updatedImportance)
           (ep_id episode))"

definition consolidateMemories ::
  "episode_row list \<Rightarrow> int \<Rightarrow> int \<Rightarrow> string \<Rightarrow> episode_row list \<times> (error + unit)" where
  "consolidateMemories db now tz personaId =
     (case getUnconsolidatedEpisodes db personaId of
        Inl err \<Rightarrow> (db, Inl err)
      | Inr recentEpisodes \<Rightarrow> (foldl (consolidate_step now tz) db recentEpisodes, Inr ()))"

text \<open>
  The formula of the specification for the same step, for comparison: the bonuses
  \<open>+0.1\<close> positive, \<open>+0.15\<close> negative, \<open>+0.05\<close> group conversation and \<open>+0.02\<close> for an
  importance that is already high (above \<open>0.7\<close>, the bound the recent-memory pass uses
  for its tag of that name).
\<close>

definition spec_bucketBonuses :: "episode_row \<Rightarrow> real" where
  "spec_bucketBonuses e =
     (if ep_emotional_valence e > 0.5 then 0.1 else 0) +
     (if ep_emotional_valence e < - 0.5 then 0.15 else 0) +
     (if ep_event_type e = ''conversation'' \<and> length (ep_participants e) > 2 then 0.05 else 0) +
     (if ep_importance_score e > 0.7 then 0.02 else 0)"

definition spec_importance :: "int \<Rightarrow> episode_row \<Rightarrow> real" where
  "spec_importance now e =
     clamp01 ((ep_importance_score e + spec_bucketBonuses e) *
              exp (- (real_of_int (now - ep_timestamp e) / 86400000) / 30))"

section \<open>Memory consolidation engine\<close>

record adjustment =
  memoryId :: string
  oldScore :: real
  newScore :: real
  reason :: string

record MemoryConsolidationResult =
  consolidatedCount :: nat
  patternsIdentified :: "string list"
  importanceAdjustments :: "adjustment list"
  insights :: "string list"

text \<open>Decimal rendering of a count inside a template string.\<close>

function nat_to_string :: "nat \<Rightarrow> string" where
  "nat_to_string n =
     (if n < 10 then [char_of (48 + n)]
      else nat_to_string (n div 10) @ [char_of (48 + n mod 10)])"
  by pat_completeness auto
termination
  by (relation "measure id") auto

text \<open>\<open>MemoryConsolidation.identifyBasicPatterns\<close>.\<close>

definition identifyBasicPatterns :: "int \<Rightarrow> episode_row \<Rightarrow> string list" where
  "identifyBasicPatterns tz episode =
     (let hour = getHours tz (ep_timestamp episode) in
      (if hour < 6 then [''late_night_activity'']
       else if hour < 12 then [''morning_activity'']
       else if hour < 18 then [''afternoon_activity'']
       else [''evening_activity'']) @
      (if ep_event_type episode \<noteq> [] then [''event_type_'' @ ep_event_type episode] else []) @
      (if ep_emotional_valence episode > 0.5 then [''positive_emotional_experience'']
       else if ep_emotional_valence episode < - 0.5 then [''negative_emotional_experience'']
       else []) @
      (if ep_importance_score episode > 0.7 then [''high_importance_event''] else []))"

text \<open>\<open>MemoryConsolidation.calculateConsolidatedImportance\<close> at clock \<open>now\<close>.\<close>

definition calculateConsolidatedImportance :: "int \<Rightarrow> episode_row \<Rightarrow> string list \<Rightarrow> real" where
  "calculateConsolidatedImportance now episode patterns =
     (let importance0 = ep_importance_score episode;
          importance1 = (if ''positive_emotional_experience'' \<in> set patterns
                         then importance0 + 0.05 else importance0);
          importance2 = (if ''high_importance_event'' \<in> set patterns
                         then importance1 + 0.02 else importance1);
          importance3 = (if ''negative_emotional_experience'' \<in> set patterns
                         then importance2 + 0.08 else importance2);
          ageInDays = real_of_int (now - ep_timestamp episode) / (1000 * 60 * 60 * 24);
          decay = exp (- ageInDays / 60);
          importance4 = importance3 * decay;
          patternBonus = min (real (length patterns) * 0.01) 0.05
      in max 0 (min 1 (importance4 + patternBonus)))"
text \<open>
  \<open>MemoryConsolidation.consolidateRecent\<close>: the body of the loop, then the whole pass:
  the table it leaves, and the report it returns or the error it throws. In the loop the
  state is the table and the report under construction. An error of \<open>getRecentEpisodes\<close>
  leaves the \<open>try\<close> block; the \<open>catch\<close> block logs it and throws it again.
\<close>

definition recent_step ::
  "int \<Rightarrow> int \<Rightarrow> episode_row list \<times> MemoryConsolidationResult \<Rightarrow> episode_row
     \<Rightarrow> episode_row list \<times> MemoryConsolidationResult" where
  "recent_step now tz st episode =
     (let patterns = identifyBasicPatterns tz episode;
          newImportance = calculateConsolidatedImportance now episode patterns;
          st1 = (if \<bar>newImportance - ep_importance_score episode\<bar> > 0.05
                 then (updateEpisodeImportance (fst st) (ep_id episode) newImportance,
                       (snd st)\<lparr>importanceAdjustments := importanceAdjustments (snd st) @
                          [\<lparr>memoryId = ep_id episode, oldScore = ep_importance_score episode,
                            newScore = newImportance,
                            reason = ''Recent consolidation adjustment''\<rparr>]\<rparr>)
                 else st)
      in (fst st1,
          (snd st1)\<lparr>patternsIdentified := patternsIdentified (snd st1) @ patterns,
                    consolidatedCount := consolidatedCount (snd st1) + 1\<rparr>))"


section \<open>Consciousness engine\<close>

text \<open>
  A row of \<open>consciousness_states\<close> (one per persona). The four scalars are \<open>REAL\<close> columns
  without \<open>NOT NULL\<close> or \<open>CHECK\<close>, and \<open>current_state\<close> is a \<open>TEXT\<close> column without
  \<open>NOT NULL\<close>: each may hold \<open>NULL\<close> (\<open>None\<close>). \<open>state_context\<close> is a JSON object:
  a list of keys with their values.
\<close>

datatype json_value = JString string | JNumber "int option" | JBool bool | JDate int

record consciousness_row =
  cs_persona_id :: string
  cs_self_awareness :: "jsnum option"
  cs_temporal_continuity :: "jsnum option"
  cs_social_cognition :: "jsnum option"
  cs_metacognition :: "jsnum option"
  cs_current_state :: "string option"
  cs_state_context :: "(string \<times> json_value) list"
  cs_last_awakening :: int
  cs_updated_at :: int

text \<open>
  The object \<open>getCurrentState\<close> returns (\<open>ConsciousnessState\<close>): a field is \<open>None\<close> when
  it is \<open>undefined\<close>, a date when it is an \<open>Invalid Date\<close>.
\<close>

record ConsciousnessState =
  st_personaId :: "string option"
  st_selfAwareness :: "jsnum option"
  st_temporalContinuity :: "jsnum option"
  st_socialCognition :: "jsnum option"
  st_metacognition :: "jsnum option"
  st_currentState :: "string option"
  st_stateContext :: "(string \<times> json_value) list"
  st_lastAwakening :: "int option"
  st_lastUpdated :: "int option"



text \<open>Setting a key of an object or of a \<open>Map\<close>: an existing key keeps its place.\<close>

fun obj_set :: "('k \<times> 'v) list \<Rightarrow> 'k \<Rightarrow> 'v \<Rightarrow> ('k \<times> 'v) list" where
  "obj_set [] k v = [(k, v)]"
| "obj_set ((k', v') # kvs) k v = (if k' = k then (k, v) # kvs else (k', v') # obj_set kvs k v)"

text \<open>\<open>JSON.parse(state.state_context || '{}')\<close>: the empty object for \<open>undefined\<close>.\<close>

definition parse_context :: "(string \<times> json_value) list option \<Rightarrow> (string \<times> json_value) list" where
  "parse_context v = (case v of None \<Rightarrow> [] | Some c \<Rightarrow> c)"

text \<open>
  \<open>ConsciousnessEngine.getCurrentState\<close>. \<open>state\<close> is the value of the un-awaited
  \<open>stmt.get(personaId)\<close>: the guard \<open>if (!state)\<close> tests that object, and the returned
  object is built from its properties.
\<close>

definition getCurrentState :: "consciousness_row list \<Rightarrow> string \<Rightarrow> error + ConsciousnessState" where
  "getCurrentState db personaId =
     (let state = stmt_get (find (\<lambda>r. cs_persona_id r = personaId) db)
      in if \<not> promise_truthy state
         then Inl (Error (''No consciousness state found for persona '' @ personaId))
         else Inr \<lparr> st_personaId = promise_field state ''persona_id'',
                    st_selfAwareness = promise_field state ''self_awareness'',
                    st_temporalContinuity = promise_field state ''temporal_continuity'',
                    st_socialCognition = promise_field state ''social_cognition'',
                    st_metacognition = promise_field state ''metacognition'',
                    st_currentState = promise_field state ''current_state'',
                    st_stateContext = parse_context (promise_field state ''state_context''),
                    st_lastAwakening = new_Date (promise_field state ''last_awakening''),
                    st_lastUpdated = new_Date (promise_field state ''updated_at'') \<rparr>)"

text \<open>
  \<open>Partial<ConsciousnessState>\<close>: every field may be absent. \<open>a ?? b\<close> is \<open>nullish_opt\<close>
  when \<open>b\<close> may be \<open>undefined\<close> itself and \<open>nullish\<close> when it may not.
\<close>

record state_updates =
  u_selfAwareness :: "jsnum option"
  u_temporalContinuity :: "jsnum option"
  u_socialCognition :: "jsnum option"
  u_metacognition :: "jsnum option"
  u_currentState :: "string option"
  u_stateContext :: "(string \<times> json_value) list option"
  u_lastAwakening :: "int option"

definition no_updates :: state_updates where
  "no_updates =
     \<lparr> u_selfAwareness = None, u_temporalContinuity = None, u_socialCognition = None,
       u_metacognition = None, u_currentState = None, u_stateContext = None,
       u_lastAwakening = None \<rparr>"

definition nullish :: "'a option \<Rightarrow> 'a \<Rightarrow> 'a" where
  "nullish v d = (case v of None \<Rightarrow> d | Some x \<Rightarrow> x)"

definition nullish_opt :: "'a option \<Rightarrow> 'a option \<Rightarrow> 'a option" where
  "nullish_opt v d = (case v of None \<Rightarrow> d | Some x \<Rightarrow> Some x)"

text \<open>
  \<open>ConsciousnessEngine.updateState\<close>: the table it leaves, and whether it returned or
  threw. The arguments of \<open>stmt.run(..)\<close> are evaluated before the call:
  \<open>updates.lastAwakening?.toISOString() ?? current.lastAwakening.toISOString()\<close> throws
  when the update carries no date and the current one is an \<open>Invalid Date\<close>, and then no
  statement is issued. Otherwise the un-awaited \<open>UPDATE\<close> rewrites the persona's row; no
  bound value can violate a constraint of the table.
\<close>

definition updateState ::
  "consciousness_row list \<Rightarrow> int \<Rightarrow> string \<Rightarrow> state_updates
     \<Rightarrow> consciousness_row list \<times> (error + unit)" where
  "updateState db now personaId updates =
     (case getCurrentState db personaId of
        Inl err \<Rightarrow> (db, Inl err)
      | Inr current \<Rightarrow>
          (case (case u_lastAwakening updates of
                   Some d \<Rightarrow> toISOString (Some d)
                 | None \<Rightarrow> toISOString (st_lastAwakening current)) of
             Inl err \<Rightarrow> (db, Inl err)
           | Inr lastAwakening \<Rightarrow>
               (map (\<lambda>r. if cs_persona_id r = personaId
                          then r\<lparr> cs_self_awareness :=
                                   sql_bind (nullish_opt (u_selfAwareness updates) (st_selfAwareness current)),
                                 cs_temporal_continuity :=
                                   sql_bind (nullish_opt (u_temporalContinuity updates)
                                               (st_temporalContinuity current)),
                                 cs_social_cognition :=
                                   sql_bind (nullish_opt (u_socialCognition updates)
                                               (st_socialCognition current)),
                                 cs_metacognition :=
                                   sql_bind (nullish_opt (u_metacognition updates) (st_metacognition current)),
                                 cs_current_state :=
                                   nullish_opt (u_currentState updates) (st_currentState current),
                                 cs_state_context :=
                                   nullish (u_stateContext updates) (st_stateContext current),
                                 cs_last_awakening := lastAwakening,
                                 cs_updated_at := now \<rparr>
                          else r) db,
                Inr ())))"





text \<open>
  \<open>calculateTemporalContinuity\<close>, \<open>formatTimeAwareness\<close> and \<open>handleAwakening\<close>. The
  duration is a difference of time values. On \<open>NaN\<close> every comparison of
  \<open>calculateTemporalContinuity\<close> is false, and \<open>formatTimeAwareness\<close> computes \<open>NaN\<close>
  hours and minutes.
\<close>

definition calculateTemporalContinuity :: "int option \<Rightarrow> real" where
  "calculateTemporalContinuity sleepDuration =
     (case sleepDuration of
        None \<Rightarrow> max 0.6 (0.8 - 0.2)
      | Some d \<Rightarrow>
          (let hours = real_of_int d / (1000 * 60 * 60) in
           if hours < 1 then min 0.95 (0.8 + 0.15)
           else if hours < 8 then min 0.9 (0.8 + 0.1)
           else if hours < 24 then min 0.85 (0.8 + 0.05)
           else max 0.6 (0.8 - 0.2)))"

definition int_to_string :: "int \<Rightarrow> string" where
  "int_to_string i = (if i < 0 then ''-'' @ nat_to_string (nat (- i)) else nat_to_string (nat i))"

text \<open>
  \<open>Math.floor\<close> of a quotient of integers, and JavaScript's \<open>%\<close>, whose result has the
  sign of the dividend.
\<close>

definition js_rem :: "int \<Rightarrow> int \<Rightarrow> int" where
  "js_rem a b = (if a < 0 then - ((- a) mod \<bar>b\<bar>) else a mod \<bar>b\<bar>)"

definition formatTimeAwareness :: "int option \<Rightarrow> string" where
  "formatTimeAwareness sleepDuration =
     (case sleepDuration of
        None \<Rightarrow> ''I was asleep for NaN minutes''
      | Some d \<Rightarrow>
          (let hours = d div (1000 * 60 * 60);
               minutes = js_rem d (1000 * 60 * 60) div (1000 * 60)
           in if hours > 0
              then ''I was asleep for '' @ int_to_string hours @ '' hours and '' @
                   int_to_string minutes @ '' minutes''
              else ''I was asleep for '' @ int_to_string minutes @ '' minutes''))"

definition handleAwakening ::
  "consciousness_row list \<Rightarrow> int \<Rightarrow> string \<Rightarrow> int option
     \<Rightarrow> consciousness_row list \<times> (error + unit)" where
  "handleAwakening db now personaId sleepDuration =
     (let temporalContinuity = calculateTemporalContinuity sleepDuration in
      case getCurrentState db personaId of
        Inl err \<Rightarrow> (db, Inl err)
      | Inr currentState \<Rightarrow>
          let newStateContext =
                obj_set (obj_set (obj_set (obj_set (st_stateContext currentState)
                  ''lastAwakening'' (JDate now))
                  ''sleepDuration'' (JNumber sleepDuration))
                  ''timeAwareness'' (JString (formatTimeAwareness sleepDuration)))
                  ''awakenedFromSleep'' (JBool True)
          in updateState db now personaId
               (no_updates\<lparr> u_currentState := Some ''awake'',
                            u_temporalContinuity := Some (Num temporalContinuity),
                            u_stateContext := Some newStateContext,
                            u_lastAwakening := Some now \<rparr>))"

text \<open>
  \<open>ConsciousnessEngine.initialize\<close>: an un-awaited \<open>INSERT\<close> into a table whose primary
  key is \<open>persona_id\<close>; the method returns normally whether or not the store accepts it.
\<close>

definition insert_consciousness_stmt ::
  "consciousness_row list \<Rightarrow> int \<Rightarrow> string \<Rightarrow> error + consciousness_row list" where
  "insert_consciousness_stmt db now personaId =
     (if \<exists>r \<in> set db. cs_persona_id r = personaId
      then Inl (SqliteError ''UNIQUE constraint failed: consciousness_states.persona_id'')
      else Inr (db @ [\<lparr> cs_persona_id = personaId, cs_self_awareness = Some (Num 0.5),
                         cs_temporal_continuity = Some (Num 0.8),
                         cs_social_cognition = Some (Num 0.6),
                         cs_metacognition = Some (Num 0.7), cs_current_state = Some ''awake'',
                         cs_state_context = [(''initialized'', JBool True)],
                         cs_last_awakening = now, cs_updated_at = now \<rparr>]))"

definition consciousness_initialize ::
  "consciousness_row list \<Rightarrow> int \<Rightarrow> string \<Rightarrow> consciousness_row list" where
  "consciousness_initialize db now personaId =
     run_detached db (insert_consciousness_stmt db now personaId)"

section \<open>Persona core\<close>

text \<open>
  Rows of \<open>personas\<close> and \<open>personality_traits\<close> (the trait table's autoincrement id is
  never read and is left out; its constraints are \<open>UNIQUE(persona_id, trait_name)\<close> and
  \<open>CHECK(value >= 0 AND value <= 1)\<close>).
\<close>

record persona_row =
  pr_id :: string
  pr_name :: string
  pr_description :: string
  pr_consciousness_level :: real
  pr_created_at :: int
  pr_last_active :: int
  pr_last_sleep :: int

record trait_row =
  tr_persona_id :: string
  tr_trait_name :: string
  tr_value :: real
  tr_description :: string
  tr_created_at :: int
  tr_last_updated :: int

record PersonalityTrait =
  pt_name :: string
  pt_value :: real
  pt_description :: string

text \<open>
  The object \<open>getPersonaProfile\<close> returns: a field is \<open>None\<close> when it is \<open>undefined\<close>,
  a date when it is an \<open>Invalid Date\<close>, \<open>timeAwake\<close> when it is \<open>NaN\<close>.
\<close>

record PersonaProfile =
  pf_id :: "string option"
  pf_name :: "string option"
  pf_description :: "string option"
  pf_personalityTraits :: "PersonalityTrait list"
  pf_consciousnessState :: ConsciousnessState
  pf_timeAwake :: "int option"
  pf_lastSleep :: "int option"
  pf_lastActive :: "int option"
  pf_createdAt :: "int option"

text \<open>
  The state a \<open>PersonaCore\<close> works on: the three tables, the object's two private fields,
  and the list of \<open>SleepCycleManager.processConsolidation\<close> calls it has issued (persona
  id and sleep duration; that call runs the consolidation engine on the memory tables and
  never throws, each pass catching its own errors).
\<close>

record world =
  personas :: "persona_row list"
  traits :: "trait_row list"
  consciousness :: "consciousness_row list"
  consolidation_calls :: "(string \<times> int option) list"
  core_personaId :: "string option"
  core_isInitialized :: bool

text \<open>
  The outcome of an \<open>async\<close> method: \<open>None\<close> when it does not return; otherwise the state
  it leaves and either the thrown error or the value.
\<close>

type_synonym 'a result = "(world \<times> (error + 'a)) option"

definition ret :: "world \<Rightarrow> 'a \<Rightarrow> 'a result" where
  "ret w v = Some (w, Inr v)"

definition throw :: "world \<Rightarrow> error \<Rightarrow> 'a result" where
  "throw w e = Some (w, Inl e)"

definition bind_r :: "'a result \<Rightarrow> (world \<Rightarrow> 'a \<Rightarrow> 'b result) \<Rightarrow> 'b result" where
  "bind_r m f =
     (case m of
        None \<Rightarrow> None
      | Some (w, Inl e) \<Rightarrow> Some (w, Inl e)
      | Some (w, Inr v) \<Rightarrow> f w v)"

text \<open>A call into the consciousness engine, which works on its own table.\<close>

definition with_consciousness ::
  "world \<Rightarrow> (consciousness_row list \<Rightarrow> consciousness_row list \<times> (error + unit)) \<Rightarrow> unit result" where
  "with_consciousness w op =
     (case op (consciousness w) of
        (db', Inl e) \<Rightarrow> throw (w\<lparr>consciousness := db'\<rparr>) e
      | (db', Inr u) \<Rightarrow> ret (w\<lparr>consciousness := db'\<rparr>) ())"

text \<open>Truthiness of \<open>this.personaId\<close>: neither \<open>null\<close> nor the empty string.\<close>

definition truthy_id :: "string option \<Rightarrow> bool" where
  "truthy_id v = (case v of None \<Rightarrow> False | Some p \<Rightarrow> p \<noteq> [])"

text \<open>
  \<open>this.personaId!\<close> passed where a string is expected (at each use below the field has
  been set).
\<close>

definition id_text :: "string option \<Rightarrow> string" where
  "id_text v = (case v of None \<Rightarrow> [] | Some p \<Rightarrow> p)"

text \<open>
  \<open>getExistingPersona\<close>: \<open>SELECT * FROM personas LIMIT 1\<close>. The promise of \<open>stmt.get()\<close>
  is returned from an \<open>async\<close> method whose caller awaits it, so the caller gets the row.
\<close>

definition getExistingPersona :: "world \<Rightarrow> persona_row option" where
  "getExistingPersona w = await (stmt_get (case personas w of [] \<Rightarrow> None | r # rs \<Rightarrow> Some r))"

text \<open>Byte order of strings, for \<open>ORDER BY trait_name\<close>.\<close>

fun str_le :: "string \<Rightarrow> string \<Rightarrow> bool" where
  "str_le [] ys = True"
| "str_le (x # xs) [] = False"
| "str_le (x # xs) (y # ys) =
     ((of_char x :: nat) < of_char y \<or> (x = y \<and> str_le xs ys))"

text \<open>
  \<open>getPersonalityTraits\<close>: \<open>rows\<close> is the value of the un-awaited
  \<open>stmt.all(this.personaId)\<close>; the error of \<open>rows.map(..)\<close> is caught, logged, and the
  method returns \<open>[]\<close>.
\<close>

definition getPersonalityTraits :: "world \<Rightarrow> PersonalityTrait list" where
  "getPersonalityTraits w =
     (if \<not> truthy_id (core_personaId w) then []
      else
        let rows = stmt_all (order_by (\<lambda>a b. str_le (tr_trait_name a) (tr_trait_name b))
                     (filter (\<lambda>row. Some (tr_persona_id row) = core_personaId w) (traits w)))
        in (case promise_method rows ''rows.map''
                   (map (\<lambda>row. \<lparr> pt_name = tr_trait_name row, pt_value = tr_value row,
                                    pt_description = tr_description row \<rparr>)) of
              Inl err \<Rightarrow> []
            | Inr ts \<Rightarrow> ts))"

text \<open>
  \<open>INSERT INTO personality_traits\<close> under the table's two constraints, and
  \<open>INSERT INTO personas\<close> under its primary key. None of the inserts below is awaited.
\<close>

definition insert_trait :: "trait_row list \<Rightarrow> trait_row \<Rightarrow> error + trait_row list" where
  "insert_trait tbl row =
     (if \<exists>r \<in> set tbl. tr_persona_id r = tr_persona_id row \<and> tr_trait_name r = tr_trait_name row
      then Inl (SqliteError ''UNIQUE constraint failed: personality_traits'')
      else if \<not> (0 \<le> tr_value row \<and> tr_value row \<le> 1)
      then Inl (SqliteError ''CHECK constraint failed: personality_traits'')
      else Inr (tbl @ [row]))"

definition insert_persona :: "persona_row list \<Rightarrow> persona_row \<Rightarrow> error + persona_row list" where
  "insert_persona tbl row =
     (if \<exists>r \<in> set tbl. pr_id r = pr_id row
      then Inl (SqliteError ''UNIQUE constraint failed: personas.id'')
      else Inr (tbl @ [row]))"

definition defaultTraits :: "(string \<times> real \<times> string) list" where
  "defaultTraits =
     [(''openness'', 0.6, ''Openness to new experiences and ideas''),
      (''conscientiousness'', 0.7, ''Organization and goal-directed behavior''),
      (''extraversion'', 0.5, ''Social engagement and assertiveness''),
      (''agreeableness'', 0.6, ''Cooperation and social harmony''),
      (''neuroticism'', 0.3, ''Emotional stability and stress resilience''),
      (''curiosity'', 0.8, ''Drive to learn and explore''),
      (''empathy'', 0.7, ''Understanding and sharing feelings of others'')]"

definition createDefaultPersonalityTraits :: "int \<Rightarrow> world \<Rightarrow> string \<Rightarrow> unit result" where
  "createDefaultPersonalityTraits now w personaId =
     ret (w\<lparr>traits :=
              foldl (\<lambda>tbl (n, v, d).
                       run_detached tbl
                         (insert_trait tbl
                            \<lparr> tr_persona_id = personaId, tr_trait_name = n, tr_value = v,
                              tr_description = d, tr_created_at = now, tr_last_updated = now \<rparr>))
                    (traits w) defaultTraits\<rparr>) ()"


text \<open>\<open>createDefaultPersona\<close> at clock \<open>now\<close>; the id is \<open>persona_\<close> followed by the clock.\<close>

definition createDefaultPersona :: "int \<Rightarrow> world \<Rightarrow> string result" where
  "createDefaultPersona now w =
     (let personaId = ''persona_'' @ int_to_string now;
          w1 = w\<lparr>personas :=
                   run_detached (personas w)
                     (insert_persona (personas w)
                        \<lparr> pr_id = personaId, pr_name = ''ZV5 Persona'',
                          pr_description = ''Zero Vector 5 Dedicated Persona - A conscious AI entity with evolving personality and persistent memory'',
                          pr_consciousness_level = 0.5, pr_created_at = now, pr_last_active = now,
                          pr_last_sleep = now \<rparr>)\<rparr>;
          w2 = w1\<lparr>consciousness := consciousness_initialize (consciousness w1) now personaId\<rparr>
      in bind_r (createDefaultPersonalityTraits now w2 personaId)
           (\<lambda>w3 u. ret w3 personaId))"

text \<open>
  The four methods that call one another: \<open>initialize\<close>, \<open>awakePersona\<close>,
  \<open>getPersonaProfile\<close> and \<open>updateActivity\<close>. Each body takes the methods it calls as
  arguments.
\<close>

definition initialize_body :: "(world \<Rightarrow> unit result) \<Rightarrow> int \<Rightarrow> world \<Rightarrow> string option result" where
  "initialize_body awake now w =
     (if core_isInitialized w \<and> truthy_id (core_personaId w) then ret w (core_personaId w)
      else
        (case getExistingPersona w of
           Some existingPersona \<Rightarrow>
             bind_r (awake (w\<lparr>core_personaId := Some (pr_id existingPersona)\<rparr>))
               (\<lambda>w1 u. ret (w1\<lparr>core_isInitialized := True\<rparr>) (core_personaId w1))
         | None \<Rightarrow>
             bind_r (createDefaultPersona now w)
               (\<lambda>w1 pid. ret (w1\<lparr>core_personaId := Some pid, core_isInitialized := True\<rparr>)
                             (Some pid))))"

definition processConsolidation :: "world \<Rightarrow> string \<Rightarrow> int option \<Rightarrow> unit result" where
  "processConsolidation w personaId sleepDuration =
     ret (w\<lparr>consolidation_calls := consolidation_calls w @ [(personaId, sleepDuration)]\<rparr>) ()"

text \<open>
  \<open>awakePersona\<close>: \<open>sleepDuration\<close> is \<open>Date.now() - persona.lastSleep!.getTime()\<close>, and
  the consolidation runs when \<open>sleepDuration > 30 * 60 * 1000\<close>.
\<close>

definition awakePersona_body ::
  "(world \<Rightarrow> PersonaProfile result) \<Rightarrow> (world \<Rightarrow> unit result) \<Rightarrow> int \<Rightarrow> world \<Rightarrow> unit result" where
  "awakePersona_body getProfile updActivity now w =
     (if \<not> truthy_id (core_personaId w) then ret w ()
      else
        bind_r (getProfile w)
          (\<lambda>w1 persona.
             let sleepDuration = time_since now (pf_lastSleep persona) in
             bind_r (with_consciousness w1
                       (\<lambda>db. handleAwakening db now (id_text (core_personaId w1)) sleepDuration))
               (\<lambda>w2 u.
                  bind_r (if duration_gt sleepDuration (30 * 60 * 1000)
                          then processConsolidation w2 (id_text (core_personaId w2)) sleepDuration
                          else ret w2 ())
                    (\<lambda>w3 u. updActivity w3))))"

text \<open>
  \<open>getPersonaProfile\<close>: the method first calls \<open>initialize\<close> unless the object is
  initialised. After that, \<open>persona\<close> is the value of the un-awaited
  \<open>stmt.get(this.personaId!)\<close>: the guard \<open>if (!persona)\<close> tests that object and the
  profile is built from its properties.
\<close>

definition getPersonaProfile_body ::
  "(world \<Rightarrow> string option result) \<Rightarrow> int \<Rightarrow> world \<Rightarrow> PersonaProfile result" where
  "getPersonaProfile_body init now w =
     bind_r (if \<not> core_isInitialized w \<or> \<not> truthy_id (core_personaId w)
             then bind_r (init w) (\<lambda>w' v. ret w' ())
             else ret w ())
       (\<lambda>w1 u.
          let persona = stmt_get (find (\<lambda>r. Some (pr_id r) = core_personaId w1) (personas w1))
          in if \<not> promise_truthy persona then throw w1 (Error ''Persona not found'')
             else
               (case getCurrentState (consciousness w1) (id_text (core_personaId w1)) of
                  Inl e \<Rightarrow> throw w1 e
                | Inr consciousnessState \<Rightarrow>
                    let ts = getPersonalityTraits w1;
                        timeAwake = time_since now (new_Date (promise_field persona ''last_sleep''))
                    in ret w1 \<lparr> pf_id = promise_field persona ''id'',
                                pf_name = promise_field persona ''name'',
                                pf_description = promise_field persona ''description'',
                                pf_personalityTraits = ts,
                                pf_consciousnessState = consciousnessState,
                                pf_timeAwake = timeAwake,
                                pf_lastSleep = new_Date (promise_field persona ''last_sleep''),
                                pf_lastActive = new_Date (promise_field persona ''last_active''),
                                pf_createdAt = new_Date (promise_field persona ''created_at'') \<rparr>))"

text \<open>\<open>updateActivity\<close>: the \<open>UPDATE\<close> of \<open>last_active\<close> is not awaited.\<close>

definition updateActivity_body ::
  "(world \<Rightarrow> string option result) \<Rightarrow> int \<Rightarrow> world \<Rightarrow> unit result" where
  "updateActivity_body init now w =
     bind_r (if \<not> truthy_id (core_personaId w)
             then bind_r (init w) (\<lambda>w' v. ret w' ())
             else ret w ())
       (\<lambda>w1 u.
          ret (w1\<lparr>personas :=
                   map (\<lambda>r. if Some (pr_id r) = core_personaId w1
                             then r\<lparr>pr_last_active := now\<rparr> else r) (personas w1)\<rparr>) ())"

text \<open>
  The methods themselves, with a bound on the depth of the calls among the four: at
  depth \<open>0\<close> a call has not returned.
\<close>

fun initialize :: "nat \<Rightarrow> int \<Rightarrow> world \<Rightarrow> string option result"
  and awakePersona :: "nat \<Rightarrow> int \<Rightarrow> world \<Rightarrow> unit result"
  and getPersonaProfile :: "nat \<Rightarrow> int \<Rightarrow> world \<Rightarrow> PersonaProfile result"
  and updateActivity :: "nat \<Rightarrow> int \<Rightarrow> world \<Rightarrow> unit result" where
  "initialize 0 now w = None"
| "initialize (Suc n) now w = initialize_body (awakePersona n now) now w"
| "awakePersona 0 now w = None"
| "awakePersona (Suc n) now w =
     awakePersona_body (getPersonaProfile n now) (updateActivity n now) now w"
| "getPersonaProfile 0 now w = None"
| "getPersonaProfile (Suc n) now w = getPersonaProfile_body (initialize n now) now w"
| "updateActivity 0 now w = None"
| "updateActivity (Suc n) now w = updateActivity_body (initialize n now) now w"


text \<open>\<open>calculateTraitAdjustments\<close>: the rule table, then the context tags.\<close>

record experienceData =
  eventType :: string
  outcome :: string
  emotionalImpact :: real
  contextTags :: "string list"








section \<open>Example data\<close>

definition skill_plain :: skill_row where
  "skill_plain =
     \<lparr> sk_id = ''skill_1'', sk_persona_id = ''p1'', sk_skill_name = ''greet'',
       sk_domain = ''social'', sk_pattern = ''{}'', sk_success_rate = 0.5,
       sk_context_conditions = [], sk_usage_count = Some (Num 10), sk_last_used = 0, sk_created_at = 0 \<rparr>"

definition know_a :: knowledge_row where
  "know_a =
     \<lparr> kn_id = ''know_a'', kn_persona_id = ''p1'', kn_domain = ''math'',
       kn_concept = ''addition'', kn_content = [CHR 0x22] @ ''integers'' @ [CHR 0x22],
       kn_confidence_level = 0.9, kn_source = ''experience'', kn_relationships = [''sum''],
       kn_created_at = 0, kn_updated_at = 0 \<rparr>"

definition know_b :: knowledge_row where
  "know_b =
     \<lparr> kn_id = ''know_b'', kn_persona_id = ''p1'', kn_domain = ''math'',
       kn_concept = ''addition'', kn_content = [CHR 0x22] @ ''fractions'' @ [CHR 0x22],
       kn_confidence_level = 0.6, kn_source = ''experience'', kn_relationships = [''plus''],
       kn_created_at = 0, kn_updated_at = 0 \<rparr>"

definition know_c :: knowledge_row where
  "know_c = know_a \<lparr> kn_content := [CHR 0x22] @ ''adding integers'' @ [CHR 0x22] \<rparr>"

definition know_d :: knowledge_row where
  "know_d = know_b \<lparr> kn_content := [CHR 0x22] @ ''adding fractions'' @ [CHR 0x22] \<rparr>"

definition ep_fresh :: episode_row where
  "ep_fresh =
     \<lparr> ep_id = ''ep_1'', ep_persona_id = ''p1'', ep_timestamp = 0,
       ep_event_type = ''conversation'', ep_content = ''{}'', ep_context = ''{}'',
       ep_emotional_valence = 0.8, ep_importance_score = 0.5, ep_participants = [],
       ep_location = None, ep_is_consolidated = False, ep_created_at = 0 \<rparr>"

definition ep_high :: episode_row where
  "ep_high =
     \<lparr> ep_id = ''ep_2'', ep_persona_id = ''p1'', ep_timestamp = 0,
       ep_event_type = ''task_completion'', ep_content = ''{}'', ep_context = ''{}'',
       ep_emotional_valence = 0, ep_importance_score = 0.9, ep_participants = [],
       ep_location = None, ep_is_consolidated = False, ep_created_at = 0 \<rparr>"

definition persona_one :: persona_row where
  "persona_one =
     \<lparr> pr_id = ''persona_1'', pr_name = ''ZV5 Persona'', pr_description = [],
       pr_consciousness_level = 0.5, pr_created_at = 0, pr_last_active = 0, pr_last_sleep = 0 \<rparr>"

definition consciousness_one :: consciousness_row where
  "consciousness_one =
     \<lparr> cs_persona_id = ''persona_1'', cs_self_awareness = Some (Num 0.5),
       cs_temporal_continuity = Some (Num 0.8), cs_social_cognition = Some (Num 0.6),
       cs_metacognition = Some (Num 0.7), cs_current_state = Some ''sleeping'',
       cs_state_context = [], cs_last_awakening = 0, cs_updated_at = 0 \<rparr>"

definition trait_one :: trait_row where
  "trait_one =
     \<lparr> tr_persona_id = ''persona_1'', tr_trait_name = ''extraversion'', tr_value = 0.995,
       tr_description = [], tr_created_at = 0, tr_last_updated = 0 \<rparr>"

text \<open>A store with one persona that went to sleep at instant 0, and a fresh \<open>PersonaCore\<close>.\<close>

definition world_asleep :: world where
  "world_asleep =
     \<lparr> personas = [persona_one], traits = [trait_one], consciousness = [consciousness_one],
       consolidation_calls = [], core_personaId = None, core_isInitialized = False \<rparr>"




section \<open>Properties\<close>

subsection \<open>Sleep-type classification\<close>

lemma determineSleepType_rank:
  "sleepTypeRank (determineSleepType d) =
     (if d / 3600000 < 2 then 0 else if d / 3600000 < 6 then 1
      else if d / 3600000 < 12 then 2 else 3)"
  by (simp add: determineSleepType_def sleepTypeRank_def Let_def)

text \<open>
  C2. For every duration \<open>d\<close> (milliseconds, \<open>h = d / 3600000\<close> hours)
  \<open>determineSleepType\<close> returns \<open>light_processing\<close> when \<open>h < 2\<close>,
  \<open>deep_consolidation\<close> when \<open>2 \<le> h < 6\<close>, \<open>rem_integration\<close> when \<open>6 \<le> h < 12\<close>
  and \<open>extended_reorganization\<close> otherwise; the result is always one of these four, and a
  larger duration never maps to an earlier bracket.
\<close>

theorem determineSleepType_brackets_monotone:
  "(d / 3600000 < 2 \<longrightarrow> determineSleepType d = ''light_processing'') \<and>
   (2 \<le> d / 3600000 \<and> d / 3600000 < 6 \<longrightarrow> determineSleepType d = ''deep_consolidation'') \<and>
   (6 \<le> d / 3600000 \<and> d / 3600000 < 12 \<longrightarrow> determineSleepType d = ''rem_integration'') \<and>
   (12 \<le> d / 3600000 \<longrightarrow> determineSleepType d = ''extended_reorganization'') \<and>
   determineSleepType d \<in> {''light_processing'', ''deep_consolidation'',
                            ''rem_integration'', ''extended_reorganization''} \<and>
   (d1 \<le> d2 \<longrightarrow> sleepTypeRank (determineSleepType d1) \<le> sleepTypeRank (determineSleepType d2))"
proof -
  have mono: "d1 \<le> d2 \<longrightarrow>
      sleepTypeRank (determineSleepType d1) \<le> sleepTypeRank (determineSleepType d2)"
    unfolding determineSleepType_rank by auto
  have rest: "(d / 3600000 < 2 \<longrightarrow> determineSleepType d = ''light_processing'') \<and>
   (2 \<le> d / 3600000 \<and> d / 3600000 < 6 \<longrightarrow> determineSleepType d = ''deep_consolidation'') \<and>
   (6 \<le> d / 3600000 \<and> d / 3600000 < 12 \<longrightarrow> determineSleepType d = ''rem_integration'') \<and>
   (12 \<le> d / 3600000 \<longrightarrow> determineSleepType d = ''extended_reorganization'') \<and>
   determineSleepType d \<in> {''light_processing'', ''deep_consolidation'',
                            ''rem_integration'', ''extended_reorganization''}"
    by (simp add: determineSleepType_def Let_def)
  from rest mono show ?thesis by blast
qed

theorem determineSleepType_brackets_monotone_witness:
  "determineSleepType 3600000 = ''light_processing'' \<and>
   determineSleepType 10800000 = ''deep_consolidation'' \<and>
   determineSleepType 25200000 = ''rem_integration'' \<and>
   determineSleepType 43200000 = ''extended_reorganization'' \<and>
   sleepTypeRank (determineSleepType 3600000) \<le> sleepTypeRank (determineSleepType 25200000)"
  using determineSleepType_brackets_monotone [of 3600000 3600000 25200000]
        determineSleepType_brackets_monotone [of 10800000 0 0]
        determineSleepType_brackets_monotone [of 25200000 0 0]
        determineSleepType_brackets_monotone [of 43200000 0 0]
  by (simp add: sleepTypeRank_def)

subsection \<open>Cosine similarity on a zero vector\<close>

text \<open>
  C3. The claim: for equal-length vectors \<open>calculateSimilarity\<close> returns the cosine
  similarity clamped to \<open>[-1, 1]\<close>, and the score 0 when a vector has zero norm. The code
  has no zero-norm branch: for the vectors \<open>[0, 0]\<close> and \<open>[1, 0]\<close> it divides \<open>0\<close> by
  \<open>0\<close> and returns \<open>NaN\<close>, which is neither 0 nor inside \<open>[-1, 1]\<close>.
\<close>

theorem calculateSimilarity_zero_norm_is_NaN:
  "calculateSimilarity [0, 0] [1, 0] = Inr NaN \<and> calculateSimilarity [0, 0] [1, 0] \<noteq> Inr (Num 0)"
  by (simp add: calculateSimilarity_def similarity_step_def js_div_def)

subsection \<open>Merging knowledge entries\<close>

lemma set_foldl_set_add: "set (foldl set_add acc xs) = set acc \<union> set xs"
  by (induction xs arbitrary: acc) (auto simp: set_add_def)

lemma set_new_Set: "set (new_Set xs) = set xs"
  by (simp add: new_Set_def set_foldl_set_add)

lemma primary_of_mem: "primary_of e es \<in> set (e # es)"
  unfolding primary_of_def
proof (induction es arbitrary: e)
  case Nil show ?case by simp
next
  case (Cons x xs)
  show ?case using Cons.IH[of x] Cons.IH[of e] by auto
qed

lemma primary_of_ge_start: "kn_confidence_level e \<le> kn_confidence_level (primary_of e es)"
  unfolding primary_of_def
proof (induction es arbitrary: e)
  case Nil show ?case by simp
next
  case (Cons x xs)
  show ?case using Cons.IH[of x] Cons.IH[of e] by (auto simp: less_imp_le intro: order_trans)
qed

lemma primary_of_max:
  "x \<in> set (e # es) \<Longrightarrow> kn_confidence_level x \<le> kn_confidence_level (primary_of e es)"
proof (induction es arbitrary: e)
  case Nil then show ?case by (simp add: primary_of_def)
next
  case (Cons y ys)
  have step: "primary_of e (y # ys) =
      primary_of (if kn_confidence_level y > kn_confidence_level e then y else e) ys"
    by (simp add: primary_of_def)
  show ?case
  proof (cases "x \<in> set ys")
    case True
    then show ?thesis unfolding step using Cons.IH by simp
  next
    case False
    with Cons.prems have "x = e \<or> x = y" by auto
    then show ?thesis unfolding step
      using primary_of_ge_start[of "if kn_confidence_level y > kn_confidence_level e then y else e" ys]
      by (auto split: if_splits)
  qed
qed

lemma length_filter_distinct_key:
  "distinct (map f xs) \<Longrightarrow> p \<in> set xs \<Longrightarrow> length (filter (\<lambda>x. f x \<noteq> f p) xs) = length xs - 1"
proof (induction xs)
  case Nil then show ?case by simp
next
  case (Cons a xs)
  show ?case
  proof (cases "a = p")
    case True
    with Cons.prems have "\<forall>x \<in> set xs. f x \<noteq> f p" by (auto simp: image_iff)
    then have "filter (\<lambda>x. f x \<noteq> f p) xs = xs" by (simp add: filter_id_conv)
    with True show ?thesis by simp
  next
    case False
    with Cons.prems have pin: "p \<in> set xs" by simp
    with Cons.prems have "f a \<noteq> f p" by (auto simp: image_iff)
    moreover have "length xs > 0" using pin by (cases xs) auto
    ultimately show ?thesis using Cons.IH Cons.prems pin by simp
  qed
qed

lemma set_filter_distinct_key:
  "distinct (map f xs) \<Longrightarrow> p \<in> set xs \<Longrightarrow> set (filter (\<lambda>x. f x \<noteq> f p) xs) = set xs - {p}"
  by (auto simp: distinct_map inj_on_def)

lemma foldl_delete_both:
  "foldl (\<lambda>s other. (delete_knowledge_stmt (fst s) (kn_id other), vector_delete (snd s) (kn_id other)))
         (d, v) others =
   (filter (\<lambda>r. kn_id r \<notin> kn_id ` set others) d, filter (\<lambda>x. vec_id x \<notin> kn_id ` set others) v)"
proof (induction others arbitrary: d v)
  case Nil show ?case by simp
next
  case (Cons x os)
  have "foldl (\<lambda>s other. (delete_knowledge_stmt (fst s) (kn_id other), vector_delete (snd s) (kn_id other)))
         (d, v) (x # os) =
        (filter (\<lambda>r. kn_id r \<notin> kn_id ` set os) (delete_knowledge_stmt d (kn_id x)),
         filter (\<lambda>x. vec_id x \<notin> kn_id ` set os) (vector_delete v (kn_id x)))"
    using Cons.IH[of "delete_knowledge_stmt d (kn_id x)" "vector_delete v (kn_id x)"] by simp
  also have "\<dots> = (filter (\<lambda>r. kn_id r \<notin> kn_id ` set (x # os)) d,
                     filter (\<lambda>y. vec_id y \<notin> kn_id ` set (x # os)) v)"
    by (auto simp: delete_knowledge_stmt_def vector_delete_def intro: filter_cong)
  finally show ?case .
qed

lemma mergeKnowledgeEntries_unfold:
  assumes "length entries > 1"
  shows "mergeKnowledgeEntries st now entries =
     (case update_knowledge_stmt (fst st)
             (mergedContent_json (kn_content (primary_of (hd entries) (tl entries)))
                (map kn_content
                   (filter (\<lambda>x. kn_id x \<noteq> kn_id (primary_of (hd entries) (tl entries))) entries)))
             (new_Set (kn_relationships (primary_of (hd entries) (tl entries)) @
                concat (map kn_relationships
                   (filter (\<lambda>x. kn_id x \<noteq> kn_id (primary_of (hd entries) (tl entries))) entries))))
             (min 1 (kn_confidence_level (primary_of (hd entries) (tl entries)) +
                (real (length
                   (filter (\<lambda>x. kn_id x \<noteq> kn_id (primary_of (hd entries) (tl entries))) entries))
                 * 0.05)))
             now (kn_id (primary_of (hd entries) (tl entries))) of
        Inl err \<Rightarrow> Inl err
      | Inr db1 \<Rightarrow>
          Inr (foldl (\<lambda>s other. (delete_knowledge_stmt (fst s) (kn_id other),
                                   vector_delete (snd s) (kn_id other)))
                 (db1, snd st)
                 (filter (\<lambda>x. kn_id x \<noteq> kn_id (primary_of (hd entries) (tl entries))) entries)))"
proof -
  from assms obtain e e' es where ent: "entries = e # e' # es"
    by (cases entries; cases "tl entries") auto
  show ?thesis
    unfolding ent mergeKnowledgeEntries_def list.case Let_def list.sel ..
qed

text \<open>
  C7. For every group of \<open>N > 1\<close> entries passed to the merge (entries loaded from the
  store: distinct ids, confidence within the column's \<open>CHECK\<close> range) the merge
  succeeds; the number of rows does not grow; the primary \<open>p\<close> is an entry of highest
  confidence, it survives, and its row ends with the union of the group's relationships
  and the confidence \<open>min 1 (confidence p + 0.05 * (N - 1))\<close>, which is at least the
  primary's; every other entry's id is gone from the table and from the vector index.
\<close>

theorem mergeKnowledgeEntries_postconditions:
  assumes dist: "distinct (map kn_id entries)"
      and len: "length entries > 1"
      and rng: "\<forall>e \<in> set entries. 0 \<le> kn_confidence_level e \<and> kn_confidence_level e \<le> 1"
  shows "\<exists>p db' vdb'.
           p \<in> set entries \<and> (\<forall>e \<in> set entries. kn_confidence_level e \<le> kn_confidence_level p) \<and>
           mergeKnowledgeEntries (db, vdb) now entries = Inr (db', vdb') \<and>
           length db' \<le> length db \<and>
           (kn_id p \<in> kn_id ` set db \<longrightarrow> kn_id p \<in> kn_id ` set db') \<and>
           (\<forall>r \<in> set db'. kn_id r = kn_id p \<longrightarrow>
              set (kn_relationships r) = (\<Union>e \<in> set entries. set (kn_relationships e)) \<and>
              kn_confidence_level r =
                min 1 (kn_confidence_level p + 0.05 * real (length entries - 1)) \<and>
              kn_confidence_level p \<le> kn_confidence_level r) \<and>
           (\<forall>e \<in> set entries. kn_id e \<noteq> kn_id p \<longrightarrow>
              kn_id e \<notin> kn_id ` set db' \<and> kn_id e \<notin> vec_id ` set vdb')"
proof -
  from len obtain e e' es where ent: "entries = e # e' # es"
    by (cases entries; cases "tl entries") auto
  define p where "p = primary_of (hd entries) (tl entries)"
  define others where "others = filter (\<lambda>x. kn_id x \<noteq> kn_id p) entries"
  define rels where "rels = new_Set (kn_relationships p @ concat (map kn_relationships others))"
  define conf where "conf = min 1 (kn_confidence_level p + (real (length others) * 0.05))"
  define content where "content = mergedContent_json (kn_content p) (map kn_content others)"
  define db1 where "db1 = map (\<lambda>r. if kn_id r = kn_id p
                            then r\<lparr>kn_content := content, kn_relationships := rels,
                                   kn_confidence_level := conf, kn_updated_at := now\<rparr>
                            else r) db"
  define db' where "db' = filter (\<lambda>r. kn_id r \<notin> kn_id ` set others) db1"
  define vdb' where "vdb' = filter (\<lambda>x. vec_id x \<notin> kn_id ` set others) vdb"
  have pin: "p \<in> set entries" unfolding p_def ent list.sel by (rule primary_of_mem)
  have pmax: "\<forall>x \<in> set entries. kn_confidence_level x \<le> kn_confidence_level p"
    unfolding p_def ent list.sel using primary_of_max by blast
  have prng: "0 \<le> kn_confidence_level p" "kn_confidence_level p \<le> 1" using rng pin by auto
  have lo: "length others = length entries - 1"
    unfolding others_def using length_filter_distinct_key[OF dist pin] .
  have so: "set others = set entries - {p}"
    unfolding others_def using set_filter_distinct_key[OF dist pin] .
  have confr: "0 \<le> conf" "conf \<le> 1" "kn_confidence_level p \<le> conf"
    using prng by (auto simp: conf_def)
  have upd: "update_knowledge_stmt db content rels conf now (kn_id p) = Inr db1"
    using confr by (simp add: update_knowledge_stmt_def db1_def)
  have run: "mergeKnowledgeEntries (db, vdb) now entries = Inr (db', vdb')"
    unfolding mergeKnowledgeEntries_unfold[OF len] p_def[symmetric] others_def[symmetric]
      content_def[symmetric] rels_def[symmetric] conf_def[symmetric] fst_conv snd_conv upd
      sum.case foldl_delete_both db'_def vdb'_def ..
  have l: "length db' \<le> length db"
    unfolding db'_def using length_filter_le[of _ db1] by (simp add: db1_def)
  have pid_not_others: "kn_id p \<notin> kn_id ` set others"
    by (auto simp: others_def)
  have surv: "kn_id p \<in> kn_id ` set db \<longrightarrow> kn_id p \<in> kn_id ` set db'"
  proof
    assume "kn_id p \<in> kn_id ` set db"
    then obtain r where r: "r \<in> set db" "kn_id r = kn_id p" by auto
    let ?r' = "r\<lparr>kn_content := content, kn_relationships := rels,
                    kn_confidence_level := conf, kn_updated_at := now\<rparr>"
    have "?r' \<in> set db1" using r by (auto simp: db1_def image_iff intro!: bexI[of _ r])
    moreover have "kn_id ?r' = kn_id p" using r by simp
    ultimately have "?r' \<in> set db'" using pid_not_others by (simp add: db'_def)
    then show "kn_id p \<in> kn_id ` set db'" using \<open>kn_id ?r' = kn_id p\<close> by (metis image_eqI)
  qed
  have relset: "set rels = (\<Union>e \<in> set entries. set (kn_relationships e))"
    using pin by (auto simp: rels_def set_new_Set so)
  have prim: "\<forall>r \<in> set db'. kn_id r = kn_id p \<longrightarrow>
              set (kn_relationships r) = (\<Union>e \<in> set entries. set (kn_relationships e)) \<and>
              kn_confidence_level r =
                min 1 (kn_confidence_level p + 0.05 * real (length entries - 1)) \<and>
              kn_confidence_level p \<le> kn_confidence_level r"
  proof (intro ballI impI)
    fix r assume r: "r \<in> set db'" "kn_id r = kn_id p"
    then have "r \<in> set db1" by (simp add: db'_def)
    with r(2) have "kn_relationships r = rels \<and> kn_confidence_level r = conf"
      by (auto simp: db1_def split: if_splits)
    then show "set (kn_relationships r) = (\<Union>e \<in> set entries. set (kn_relationships e)) \<and>
              kn_confidence_level r =
                min 1 (kn_confidence_level p + 0.05 * real (length entries - 1)) \<and>
              kn_confidence_level p \<le> kn_confidence_level r"
      using relset confr(3) by (simp add: conf_def lo mult.commute)
  qed
  have del: "\<forall>e \<in> set entries. kn_id e \<noteq> kn_id p \<longrightarrow>
              kn_id e \<notin> kn_id ` set db' \<and> kn_id e \<notin> vec_id ` set vdb'"
  proof (intro ballI impI)
    fix e assume e: "e \<in> set entries" "kn_id e \<noteq> kn_id p"
    then have "e \<in> set others" by (simp add: others_def)
    then have "kn_id e \<in> kn_id ` set others" by simp
    then show "kn_id e \<notin> kn_id ` set db' \<and> kn_id e \<notin> vec_id ` set vdb'"
      by (auto simp: db'_def vdb'_def)
  qed
  from pin pmax run l surv prim del show ?thesis by blast
qed


theorem mergeKnowledgeEntries_postconditions_witness:
  "distinct (map kn_id [know_a, know_b]) \<and> length [know_a, know_b] > 1 \<and>
   0 \<le> kn_confidence_level know_a \<and> kn_confidence_level know_a \<le> 1 \<and>
   0 \<le> kn_confidence_level know_b \<and> kn_confidence_level know_b \<le> 1 \<and>
   (\<exists>p db' vdb'.
           p \<in> set [know_a, know_b] \<and>
           (\<forall>e \<in> set [know_a, know_b]. kn_confidence_level e \<le> kn_confidence_level p) \<and>
           mergeKnowledgeEntries ([know_a, know_b], []) 0 [know_a, know_b] = Inr (db', vdb') \<and>
           length db' \<le> length [know_a, know_b] \<and>
           (kn_id p \<in> kn_id ` set [know_a, know_b] \<longrightarrow> kn_id p \<in> kn_id ` set db') \<and>
           (\<forall>r \<in> set db'. kn_id r = kn_id p \<longrightarrow>
              set (kn_relationships r) = (\<Union>e \<in> set [know_a, know_b]. set (kn_relationships e)) \<and>
              kn_confidence_level r =
                min 1 (kn_confidence_level p + 0.05 * real (length [know_a, know_b] - 1)) \<and>
              kn_confidence_level p \<le> kn_confidence_level r) \<and>
           (\<forall>e \<in> set [know_a, know_b]. kn_id e \<noteq> kn_id p \<longrightarrow>
              kn_id e \<notin> kn_id ` set db' \<and> kn_id e \<notin> vec_id ` set vdb'))"
proof -
  have h1: "distinct (map kn_id [know_a, know_b])" by (simp add: know_a_def know_b_def)
  have h2: "length [know_a, know_b] > 1" by simp
  have h3: "\<forall>e \<in> set [know_a, know_b]. 0 \<le> kn_confidence_level e \<and> kn_confidence_level e \<le> 1"
    by (simp add: know_a_def know_b_def)
  have h4: "0 \<le> kn_confidence_level know_a \<and> kn_confidence_level know_a \<le> 1 \<and>
            0 \<le> kn_confidence_level know_b \<and> kn_confidence_level know_b \<le> 1"
    by (simp add: know_a_def know_b_def)
  from h1 h2 h4 mergeKnowledgeEntries_postconditions [OF h1 h2 h3, of "[know_a, know_b]" "[]" 0]
  show ?thesis by (intro conjI) (erule conjunct1 | erule conjunct2 | assumption | simp)+
qed

subsection \<open>Reads through an un-awaited statement\<close>


lemma getUnconsolidatedEpisodes_throws:
  "getUnconsolidatedEpisodes db p = Inl (TypeError ''rows.map is not a function'')"
  by (simp add: getUnconsolidatedEpisodes_def promise_method_def Let_def)

lemma getAllKnowledge_throws:
  "getAllKnowledge db p = Inl (TypeError ''rows.map is not a function'')"
  by (simp add: getAllKnowledge_def promise_method_def Let_def)



subsection \<open>Skills without context conditions\<close>

text \<open>
  C10. The claim: \<open>getApplicableSkills\<close> includes in its result every stored skill of the
  persona whose \<open>contextConditions\<close> list is empty. \<open>contextMatches\<close> does accept every
  context when no condition is required, but no call of \<open>getApplicableSkills\<close> returns a
  result: whatever the store holds and whatever is asked, \<open>skills\<close> is a promise,
  \<open>skills.filter\<close> is not a function, and the method rejects with that \<open>TypeError\<close>. So
  it does for the store that holds one skill of persona \<open>p1\<close> without conditions, where
  the claim promises that skill in the result.
\<close>

theorem getApplicableSkills_rejects:
  "contextMatches lower context [] \<and>
   getApplicableSkills lower db personaId context domain =
     Inl (TypeError ''skills.filter is not a function'') \<and>
   sk_persona_id skill_plain = ''p1'' \<and> sk_context_conditions skill_plain = [] \<and>
   getApplicableSkills lower [skill_plain] ''p1'' [] None =
     Inl (TypeError ''skills.filter is not a function'')"
  by (simp add: contextMatches_def getApplicableSkills_def promise_method_def Let_def
        skill_plain_def)

subsection \<open>Updating a skill that is not stored\<close>

lemma map_update_absent:
  "\<forall>r \<in> set db. \<not> hit r \<Longrightarrow> map (\<lambda>r. if hit r then upd r else r) db = db"
  by (induction db) auto

lemma update_skill_stmt_NaN: "run_detached db (update_skill_stmt db NaN cnt used k) = db"
proof (cases "\<exists>r \<in> set db. sk_id r = k")
  case True
  then show ?thesis by (simp add: update_skill_stmt_def rate_accepted_def run_detached_def)
next
  case False
  then have "\<forall>r \<in> set db. \<not> sk_id r = k" by simp
  from map_update_absent[OF this] False show ?thesis
    by (simp add: update_skill_stmt_def run_detached_def)
qed

lemma updateSkillPerformance_unchanged:
  "updateSkillPerformance db now k wasSuccessful context = Inr db"
  by (simp add: updateSkillPerformance_def promise_truthy_def promise_field_def ToNumber_def
        js_sub_def update_skill_stmt_NaN Let_def)

text \<open>
  C8, as claimed: for a skill id that is absent from the store, \<open>updateSkillPerformance\<close>
  surfaces a \<open>NotFound\<close> error rather than returning successfully without writing
  anything. With one stored skill and another id the method returns normally and the
  table is as it was.
\<close>

theorem updateSkillPerformance_absent_counterexample:
  "''skill_9'' \<notin> sk_id ` set [skill_plain] \<and>
   updateSkillPerformance [skill_plain] 0 ''skill_9'' True [] = Inr [skill_plain]"
  by (simp add: updateSkillPerformance_unchanged skill_plain_def)

text \<open>
  C8, amended: for every skill id that is absent from the store,
  \<open>updateSkillPerformance\<close> returns normally to its caller, with no error, and leaves the
  store unchanged.
\<close>

theorem updateSkillPerformance_absent_returns_unchanged:
  assumes "k \<notin> sk_id ` set db"
  shows "updateSkillPerformance db now k wasSuccessful context = Inr db"
  by (rule updateSkillPerformance_unchanged)

theorem updateSkillPerformance_absent_returns_unchanged_witness:
  "''skill_7'' \<notin> sk_id ` set [skill_plain] \<and>
   updateSkillPerformance [skill_plain] 5 ''skill_7'' False [''greeting''] = Inr [skill_plain]"
proof -
  have h: "''skill_7'' \<notin> sk_id ` set [skill_plain]" by (simp add: skill_plain_def)
  from h updateSkillPerformance_absent_returns_unchanged [OF h, of 5 False "[''greeting'']"]
  show ?thesis by simp
qed

subsection \<open>Scenario B: consolidating two entries of one concept\<close>

text \<open>
  C4, as claimed: two entries of one persona in domain \<open>math\<close> with the concept
  \<open>addition\<close>, different content and confidence 0.9 and 0.6 are merged into one by
  \<open>consolidateKnowledge\<close>. With the contents \<open>"integers"\<close> and \<open>"fractions"\<close> (no
  letter of these strings is upper case, so \<open>toLowerCase\<close> is the identity on them)
  \<open>consolidateKnowledge\<close> throws and leaves both rows as they were; and the grouping
  step, given the two entries, forms no group: their similarity is \<open>0.7\<close>, not above
  \<open>0.8\<close>.
\<close>

theorem consolidateKnowledge_scenarioB_counterexample:
  "kn_persona_id know_a = ''p1'' \<and> kn_persona_id know_b = ''p1'' \<and>
   kn_domain know_a = ''math'' \<and> kn_domain know_b = ''math'' \<and>
   kn_concept know_a = ''addition'' \<and> kn_concept know_b = ''addition'' \<and>
   kn_content know_a \<noteq> kn_content know_b \<and>
   kn_confidence_level know_a = 0.9 \<and> kn_confidence_level know_b = 0.6 \<and>
   consolidateKnowledge (\<lambda>s. s) ([know_a, know_b], []) 0 ''p1'' =
     (([know_a, know_b], []), Inl (TypeError ''rows.map is not a function'')) \<and>
   findConsolidationCandidates (\<lambda>s. s) [know_a, know_b] = []"
  by (simp add: consolidateKnowledge_def getAllKnowledge_throws know_a_def know_b_def
        findConsolidationCandidates_def candidates_inner_def calculateConceptSimilarity_def
        contentSimilarity_def findCommonWords_def new_Set_def set_add_def is_word_char_def)

lemma findConsolidationCandidates_pair:
  assumes "kn_id a \<noteq> kn_id b" "kn_domain a = kn_domain b"
          "calculateConceptSimilarity lower a b > 0.8"
  shows "findConsolidationCandidates lower [a, b] = [[a, b]]"
  using assms by (simp add: findConsolidationCandidates_def candidates_inner_def)

text \<open>
  C4, amended: for two entries in domain \<open>math\<close> whose concept names are equal under
  \<open>toLowerCase\<close>, with confidence 0.9 and 0.6, and whose serialised contents share
  words in a ratio above one third (so that the similarity \<open>0.7 + 0.3 * ratio\<close> exceeds
  \<open>0.8\<close>), the grouping step of \<open>consolidateKnowledge\<close> puts the two in one group, and
  its merging loop over the groups leaves exactly one entry, the one that had confidence
  0.9, now with confidence \<open>0.95\<close>.
\<close>

theorem consolidateKnowledge_scenarioB_overlap:
  assumes ids: "kn_id a \<noteq> kn_id b"
      and dom: "kn_domain a = ''math''" "kn_domain b = ''math''"
      and con: "lower (kn_concept a) = lower (kn_concept b)"
      and conf: "(kn_confidence_level a = 0.9 \<and> kn_confidence_level b = 0.6) \<or>
                 (kn_confidence_level a = 0.6 \<and> kn_confidence_level b = 0.9)"
      and ovl: "contentSimilarity lower a b > 1 / 3"
  shows "findConsolidationCandidates lower [a, b] = [[a, b]] \<and>
         (\<exists>r vdb'. merge_all ([a, b], vdb) now (findConsolidationCandidates lower [a, b]) =
                      (([r], vdb'), Inr ()) \<and>
           kn_confidence_level r = 0.95 \<and> kn_domain r = ''math'' \<and>
           kn_id r = (if kn_confidence_level a = 0.9 then kn_id a else kn_id b))"
proof -
  have sim: "calculateConceptSimilarity lower a b > 0.8"
    using con ovl by (simp add: calculateConceptSimilarity_def)
  have c: "findConsolidationCandidates lower [a, b] = [[a, b]]"
    using ids dom sim by (auto intro!: findConsolidationCandidates_pair)
  have m: "merge_all ([a, b], vdb) now [[a, b]] =
             (case mergeKnowledgeEntries ([a, b], vdb) now [a, b] of
                Inl err \<Rightarrow> (([a, b], vdb), Inl err)
              | Inr st' \<Rightarrow> (st', Inr ()))"
    by (simp split: sum.splits)
  from conf have "\<exists>r vdb'. merge_all ([a, b], vdb) now [[a, b]] = (([r], vdb'), Inr ()) \<and>
           kn_confidence_level r = 0.95 \<and> kn_domain r = ''math'' \<and>
           kn_id r = (if kn_confidence_level a = 0.9 then kn_id a else kn_id b)"
  proof
    assume "kn_confidence_level a = 0.9 \<and> kn_confidence_level b = 0.6"
    then show ?thesis unfolding m using ids dom
      by (simp add: mergeKnowledgeEntries_def primary_of_def
            update_knowledge_stmt_def delete_knowledge_stmt_def vector_delete_def)
  next
    assume "kn_confidence_level a = 0.6 \<and> kn_confidence_level b = 0.9"
    then show ?thesis unfolding m using ids dom
      by (simp add: mergeKnowledgeEntries_def primary_of_def
            update_knowledge_stmt_def delete_knowledge_stmt_def vector_delete_def)
  qed
  with c show ?thesis by simp
qed

theorem consolidateKnowledge_scenarioB_overlap_witness:
  "kn_id know_c \<noteq> kn_id know_d \<and>
   kn_domain know_c = ''math'' \<and> kn_domain know_d = ''math'' \<and>
   kn_concept know_c = kn_concept know_d \<and>
   kn_content know_c \<noteq> kn_content know_d \<and>
   kn_confidence_level know_c = 0.9 \<and> kn_confidence_level know_d = 0.6 \<and>
   contentSimilarity (\<lambda>s. s) know_c know_d > 1 / 3 \<and>
   findConsolidationCandidates (\<lambda>s. s) [know_c, know_d] = [[know_c, know_d]] \<and>
   (\<exists>r vdb'. merge_all ([know_c, know_d], []) 0
                (findConsolidationCandidates (\<lambda>s. s) [know_c, know_d]) = (([r], vdb'), Inr ()) \<and>
           kn_confidence_level r = 0.95 \<and> kn_domain r = ''math'' \<and> kn_id r = kn_id know_c)"
proof -
  have h: "kn_id know_c \<noteq> kn_id know_d"
   "kn_domain know_c = ''math''" "kn_domain know_d = ''math''"
   "(\<lambda>s. s) (kn_concept know_c) = (\<lambda>s. s) (kn_concept know_d)"
    by (simp_all add: know_c_def know_d_def know_a_def know_b_def)
  have cf: "kn_confidence_level know_c = 0.9" "kn_confidence_level know_d = 0.6"
    by (simp_all add: know_c_def know_d_def know_a_def know_b_def)
  then have cf': "(kn_confidence_level know_c = 0.9 \<and> kn_confidence_level know_d = 0.6) \<or>
                 (kn_confidence_level know_c = 0.6 \<and> kn_confidence_level know_d = 0.9)" by blast
  have d: "kn_content know_c \<noteq> kn_content know_d"
    by (simp add: know_c_def know_d_def know_a_def know_b_def)
  have o: "contentSimilarity (\<lambda>s. s) know_c know_d > 1 / 3"
    by (simp add: know_c_def know_d_def know_a_def know_b_def contentSimilarity_def
          findCommonWords_def new_Set_def set_add_def is_word_char_def)
  note t = consolidateKnowledge_scenarioB_overlap [OF h cf' o, of "[]" 0]
  from t have t1: "findConsolidationCandidates (\<lambda>s. s) [know_c, know_d] = [[know_c, know_d]]"
    by (rule conjunct1)
  from t have "\<exists>r vdb'. merge_all ([know_c, know_d], []) 0
                (findConsolidationCandidates (\<lambda>s. s) [know_c, know_d]) = (([r], vdb'), Inr ()) \<and>
           kn_confidence_level r = 0.95 \<and> kn_domain r = ''math'' \<and>
           kn_id r = (if kn_confidence_level know_c = 0.9 then kn_id know_c else kn_id know_d)"
    by (rule conjunct2)
  then have t2: "\<exists>r vdb'. merge_all ([know_c, know_d], []) 0
                (findConsolidationCandidates (\<lambda>s. s) [know_c, know_d]) = (([r], vdb'), Inr ()) \<and>
           kn_confidence_level r = 0.95 \<and> kn_domain r = ''math'' \<and> kn_id r = kn_id know_c"
    by (simp only: cf(1) HOL.simp_thms if_True)
  show ?thesis using h d cf o t1 t2 by (intro conjI) assumption+
qed

subsection \<open>Episodic consolidation: the persisted importance\<close>

text \<open>
  C5, as claimed: for every unconsolidated episode the persisted importance is the
  specification's formula, which adds \<open>+0.02\<close> when the importance is already high, and
  the \<open>is_consolidated\<close> flag is then set. For a store with one fresh unconsolidated
  episode of importance \<open>0.9\<close> and neutral valence, \<open>consolidateMemories\<close> throws and
  leaves the row as it was, with importance \<open>0.9\<close> and the flag not set; the value
  that the code computes for this episode is \<open>0.9\<close> as well, and the claimed formula
  gives \<open>0.92\<close>.
\<close>

theorem consolidateMemories_high_importance_counterexample:
  "ep_persona_id ep_high = ''p1'' \<and> \<not> ep_is_consolidated ep_high \<and>
   ep_importance_score ep_high = 0.9 \<and>
   consolidateMemories [ep_high] 0 0 ''p1'' =
     ([ep_high], Inl (TypeError ''rows.map is not a function'')) \<and>
   recalculateImportance 0 ep_high (identifyPatterns 0 ep_high) = 0.9 \<and>
   spec_importance 0 ep_high = 0.92"
  by (simp add: consolidateMemories_def getUnconsolidatedEpisodes_throws
        recalculateImportance_def identifyPatterns_def ep_high_def getHours_def Let_def
        spec_importance_def spec_bucketBonuses_def clamp01_def)

lemma pattern_positive:
  "''positive_experience'' \<in> set (identifyPatterns tz e) \<longleftrightarrow> ep_emotional_valence e > 0.5"
  by (simp add: identifyPatterns_def Let_def)

lemma pattern_negative:
  "''negative_experience'' \<in> set (identifyPatterns tz e) \<longleftrightarrow> ep_emotional_valence e < - 0.5"
  by (simp add: identifyPatterns_def Let_def)

lemma pattern_group:
  "''group_conversation'' \<in> set (identifyPatterns tz e) \<longleftrightarrow>
     ep_event_type e = ''conversation'' \<and> length (ep_participants e) > 2"
  by (simp add: identifyPatterns_def Let_def)

lemma recalculateImportance_formula:
  "recalculateImportance now e (identifyPatterns tz e) =
     clamp01 ((ep_importance_score e +
               (if ep_emotional_valence e > 0.5 then 0.1 else 0) +
               (if ep_emotional_valence e < - 0.5 then 0.15 else 0) +
               (if ep_event_type e = ''conversation'' \<and> length (ep_participants e) > 2
                then 0.05 else 0)) *
              exp (- (real_of_int (now - ep_timestamp e) / 86400000) / 30))"
  unfolding recalculateImportance_def Let_def pattern_positive pattern_negative pattern_group
    clamp01_def
  by simp

lemma consolidate_step_ids: "map ep_id (consolidate_step now tz s e) = map ep_id s"
  by (simp add: consolidate_step_def markConsolidated_def updateEpisodeImportance_def Let_def
        comp_def cong: map_cong)

lemma consolidate_step_hit:
  "r \<in> set s \<Longrightarrow> ep_id r = ep_id e \<Longrightarrow>
   r\<lparr>ep_importance_score := recalculateImportance now e (identifyPatterns tz e),
     ep_is_consolidated := True\<rparr> \<in> set (consolidate_step now tz s e)"
  by (force simp: consolidate_step_def markConsolidated_def updateEpisodeImportance_def Let_def
        image_iff)

text \<open>
  C5, amended: for every episode \<open>e\<close> of the table (ids are the table's primary key),
  the step that the loop of \<open>consolidateMemories\<close> applies to \<open>e\<close> persists under its
  id the importance \<open>clamp01 ((importance + bonuses) * exp (- ageDays / 30))\<close>, with
  \<open>ageDays\<close> the age at the clock in days and the bonuses \<open>+0.1\<close> for valence above
  \<open>0.5\<close>, \<open>+0.15\<close> for valence below \<open>-0.5\<close> and \<open>+0.05\<close> for a conversation with
  more than two participants (there is no bonus for an importance that is already high),
  and sets its \<open>is_consolidated\<close> flag.
\<close>

theorem consolidate_step_persists_importance:
  assumes dist: "distinct (map ep_id db)"
      and mem: "e \<in> set db"
  shows "\<exists>r \<in> set (consolidate_step now tz db e).
           ep_id r = ep_id e \<and> ep_is_consolidated r \<and>
           ep_importance_score r =
             clamp01 ((ep_importance_score e +
               (if ep_emotional_valence e > 0.5 then 0.1 else 0) +
               (if ep_emotional_valence e < - 0.5 then 0.15 else 0) +
               (if ep_event_type e = ''conversation'' \<and> length (ep_participants e) > 2
                then 0.05 else 0)) *
              exp (- (real_of_int (now - ep_timestamp e) / 86400000) / 30)) \<and>
           (\<forall>r' \<in> set (consolidate_step now tz db e). ep_id r' = ep_id e \<longrightarrow> r' = r)"
proof -
  let ?db' = "consolidate_step now tz db e"
  let ?r = "e\<lparr>ep_importance_score := recalculateImportance now e (identifyPatterns tz e),
               ep_is_consolidated := True\<rparr>"
  have rin: "?r \<in> set ?db'" by (rule consolidate_step_hit[OF mem refl])
  have d': "distinct (map ep_id ?db')" using dist by (simp add: consolidate_step_ids)
  have uniq: "\<forall>r' \<in> set ?db'. ep_id r' = ep_id e \<longrightarrow> r' = ?r"
  proof (intro ballI impI)
    fix r' assume "r' \<in> set ?db'" "ep_id r' = ep_id e"
    with rin d' show "r' = ?r" by (auto simp: distinct_map inj_on_def)
  qed
  show ?thesis
    by (rule bexI[OF _ rin]) (use uniq in \<open>simp add: recalculateImportance_formula\<close>)
qed

theorem consolidate_step_persists_importance_witness:
  "distinct (map ep_id [ep_high, ep_fresh]) \<and> ep_fresh \<in> set [ep_high, ep_fresh] \<and>
   (\<exists>r \<in> set (consolidate_step 0 0 [ep_high, ep_fresh] ep_fresh).
      ep_id r = ''ep_1'' \<and> ep_is_consolidated r \<and> ep_importance_score r = 0.6)"
proof -
  have h1: "distinct (map ep_id [ep_high, ep_fresh])" by (simp add: ep_high_def ep_fresh_def)
  have h2: "ep_fresh \<in> set [ep_high, ep_fresh]" by simp
  from consolidate_step_persists_importance [OF h1 h2, of 0 0]
  obtain r where "r \<in> set (consolidate_step 0 0 [ep_high, ep_fresh] ep_fresh)"
    and "ep_id r = ep_id ep_fresh" and "ep_is_consolidated r"
    and "ep_importance_score r =
             clamp01 ((ep_importance_score ep_fresh +
               (if ep_emotional_valence ep_fresh > 0.5 then 0.1 else 0) +
               (if ep_emotional_valence ep_fresh < - 0.5 then 0.15 else 0) +
               (if ep_event_type ep_fresh = ''conversation'' \<and> length (ep_participants ep_fresh) > 2
                then 0.05 else 0)) *
              exp (- (real_of_int (0 - ep_timestamp ep_fresh) / 86400000) / 30))"
    by blast
  then have "r \<in> set (consolidate_step 0 0 [ep_high, ep_fresh] ep_fresh) \<and>
      ep_id r = ''ep_1'' \<and> ep_is_consolidated r \<and> ep_importance_score r = 0.6"
    by (simp add: ep_fresh_def clamp01_def)
  with h1 h2 show ?thesis by blast
qed

subsection \<open>Recent-memory consolidation run twice\<close>


text \<open>
  For the record, the body of the loop is not what keeps the second run from changing a
  score: applied to the one fresh conversation episode of the example data, at any
  importance \<open>v\<close> up to \<open>0.7\<close>, one step stores \<open>v + 0.08\<close> and records an
  adjustment.
\<close>

lemma fresh_patterns:
  "v \<le> 0.7 \<Longrightarrow> identifyBasicPatterns 0 (ep_fresh\<lparr>ep_importance_score := v\<rparr>) =
     [''late_night_activity'', ''event_type_conversation'', ''positive_emotional_experience'']"
  by (simp add: identifyBasicPatterns_def ep_fresh_def getHours_def)

lemma fresh_importance:
  "0 \<le> v \<Longrightarrow> v \<le> 0.7 \<Longrightarrow>
   calculateConsolidatedImportance 0 (ep_fresh\<lparr>ep_importance_score := v\<rparr>)
     [''late_night_activity'', ''event_type_conversation'', ''positive_emotional_experience'']
   = v + 0.08"
  by (simp add: calculateConsolidatedImportance_def ep_fresh_def)

lemma fresh_step:
  assumes "0 \<le> v" "v \<le> 0.7"
  shows "recent_step 0 0 ([ep_fresh\<lparr>ep_importance_score := v\<rparr>], res) (ep_fresh\<lparr>ep_importance_score := v\<rparr>) =
     ([ep_fresh\<lparr>ep_importance_score := v + 0.08\<rparr>],
      res\<lparr>importanceAdjustments := importanceAdjustments res @
               [\<lparr>memoryId = ''ep_1'', oldScore = v, newScore = v + 0.08,
                 reason = ''Recent consolidation adjustment''\<rparr>],
           patternsIdentified := patternsIdentified res @
               [''late_night_activity'', ''event_type_conversation'', ''positive_emotional_experience''],
           consolidatedCount := consolidatedCount res + 1\<rparr>)"
  unfolding recent_step_def fresh_patterns[OF assms(2)] Let_def fresh_importance[OF assms]
  by (simp add: updateEpisodeImportance_def ep_fresh_def)

subsection \<open>Awakening an existing persona\<close>

lemma bind_r_None [simp]: "bind_r None f = None"
  by (simp add: bind_r_def)

lemma bind_r_ret [simp]: "bind_r (ret w v) f = f w v"
  by (simp add: bind_r_def ret_def)

lemma bind_r_throw [simp]: "bind_r (throw w e) f = throw w e"
  by (simp add: bind_r_def throw_def)

lemma ret_eq_Some [simp]: "ret w v = Some (w', Inr v') \<longleftrightarrow> w = w' \<and> v = v'"
  by (auto simp: ret_def)

lemma existing_persona_diverges:
  "personas w \<noteq> [] \<and> pr_id (hd (personas w)) \<noteq> [] \<and> \<not> core_isInitialized w \<longrightarrow>
     initialize n now w = None \<and> getPersonaProfile n now w = None \<and>
     (truthy_id (core_personaId w) \<longrightarrow> awakePersona n now w = None)"
proof (induction n arbitrary: w)
  case 0
  show ?case by simp
next
  case (Suc n)
  show ?case
  proof (intro impI)
    assume h: "personas w \<noteq> [] \<and> pr_id (hd (personas w)) \<noteq> [] \<and> \<not> core_isInitialized w"
    then obtain r rs where rs: "personas w = r # rs" by (cases "personas w") auto
    let ?w1 = "w\<lparr>core_personaId := Some (pr_id r)\<rparr>"
    have "awakePersona n now ?w1 = None"
      using Suc.IH[of ?w1] h rs by (simp add: truthy_id_def)
    then have i: "initialize (Suc n) now w = None"
      using h rs by (simp add: initialize_body_def getExistingPersona_def await_def stmt_get_def)
    have "initialize n now w = None" using Suc.IH[of w] h by simp
    then have g: "getPersonaProfile (Suc n) now w = None"
      using h by (simp add: getPersonaProfile_body_def)
    have "getPersonaProfile n now w = None" using Suc.IH[of w] h by simp
    then have a: "truthy_id (core_personaId w) \<longrightarrow> awakePersona (Suc n) now w = None"
      by (simp add: awakePersona_body_def)
    from i g a show "initialize (Suc n) now w = None \<and> getPersonaProfile (Suc n) now w = None \<and>
     (truthy_id (core_personaId w) \<longrightarrow> awakePersona (Suc n) now w = None)" by simp
  qed
qed

text \<open>
  C9. The claim: when \<open>initialize()\<close> finds an existing persona it awakens it and
  triggers the consolidation pass if and only if the time since \<open>lastSleep\<close> is at least
  30 minutes. On a store with one persona and a fresh \<open>PersonaCore\<close>, \<open>initialize\<close>
  finds the persona and calls \<open>awakePersona\<close>, which asks for the profile;
  \<open>getPersonaProfile\<close> calls \<open>initialize\<close> again, because \<open>isInitialized\<close> is set only
  after \<open>awakePersona\<close> has returned; and so on. At no depth of calls and at no clock
  does \<open>initialize\<close> return: the persona is not awakened and no consolidation is
  triggered, however long it has slept.
\<close>

theorem initialize_existing_persona_never_returns:
  "initialize n now world_asleep = None"
  using existing_persona_diverges[of world_asleep n now]
  by (simp add: world_asleep_def persona_one_def)

subsection \<open>Values written by the update operations\<close>


































end
